theory Spec2Isabelle
  imports Complex_Main "HOL-Library.Multiset"
begin

section \<open>JavaScript strings\<close>

text \<open>
  A JavaScript string is the list of its UTF-16 code units, each a natural number; \<open>js\<close>
  writes one from its ASCII characters.  \<open>str_includes s t\<close> is \<^verbatim>\<open>s.includes(t)\<close>: \<open>t\<close> occurs
  in \<open>s\<close> as a contiguous run of code units.

  \<^verbatim>\<open>String.prototype.toLowerCase\<close> belongs to the engine, not to the source.  Every function
  below that calls it takes it as its first argument, \<open>toLowerCase\<close>, and what is proved of
  these functions is proved for every value of that argument, the engine's own among them.
  For evaluating a function on concrete strings, \<open>latin1ToLowerCase\<close> is the engine's
  lowering on strings whose code units are below 256: the capitals A to Z, U+00C0 to U+00D6
  and U+00D8 to U+00DE move up by 32, the other code units stay.
\<close>

type_synonym jsstring = "nat list"

definition js :: "string \<Rightarrow> jsstring" where
  "js s = map of_char s"

definition lowerUnit :: "nat \<Rightarrow> nat" where
  "lowerUnit u =
     (if (65 \<le> u \<and> u \<le> 90) \<or> (192 \<le> u \<and> u \<le> 214) \<or> (216 \<le> u \<and> u \<le> 222)
      then u + 32 else u)"

definition latin1ToLowerCase :: "jsstring \<Rightarrow> jsstring" where
  "latin1ToLowerCase s = map lowerUnit s"

fun startsWith :: "'a list \<Rightarrow> 'a list \<Rightarrow> bool" where
  "startsWith s [] = True"
| "startsWith [] (c # t) = False"
| "startsWith (d # s) (c # t) = (d = c \<and> startsWith s t)"

fun str_includes :: "'a list \<Rightarrow> 'a list \<Rightarrow> bool" where
  "str_includes [] t = (t = [])"
| "str_includes (d # s) t = (startsWith (d # s) t \<or> str_includes s t)"


section \<open>Search wrappers\<close>

subsection \<open>DiscoverSearchWrapper\<close>

text \<open>
  \<^verbatim>\<open>TDiscoverData\<close>, with the fields the wrapper reads.  The \<^verbatim>\<open>discover\<close> prop is an
  array or \<^verbatim>\<open>null\<close>; \<^verbatim>\<open>discover?.filter(...)\<close> is \<^verbatim>\<open>undefined\<close> for \<^verbatim>\<open>null\<close>.
\<close>

record discover_data =
  title :: jsstring
  tag :: jsstring

definition discoverMatches ::
  "(jsstring \<Rightarrow> jsstring) \<Rightarrow> jsstring \<Rightarrow> 'a discover_data_scheme \<Rightarrow> bool" where
  "discoverMatches toLowerCase searchQuery item =
     (str_includes (toLowerCase (title item)) (toLowerCase searchQuery) \<or>
      str_includes (toLowerCase (tag item)) (toLowerCase searchQuery))"

definition filteredDiscover ::
  "(jsstring \<Rightarrow> jsstring) \<Rightarrow> 'a discover_data_scheme list option \<Rightarrow> jsstring
     \<Rightarrow> 'a discover_data_scheme list option" where
  "filteredDiscover toLowerCase discover searchQuery =
     (case discover of
        None \<Rightarrow> None
      | Some items \<Rightarrow> Some (filter (discoverMatches toLowerCase searchQuery) items))"

text \<open>Concrete discover entries, for evaluating the filter.\<close>

definition discoverEntries :: "discover_data list" where
  "discoverEntries =
     [\<lparr>title = js ''Cross-chain swaps'', tag = js ''Trade''\<rparr>,
      \<lparr>title = js ''FOX staking'', tag = js ''Earn''\<rparr>,
      \<lparr>title = 201 # js ''CLAIR mobile app'', tag = js ''Wallet''\<rparr>]"

subsection \<open>ProtocolSearchWrapper and WalletSearchWrapper\<close>

text \<open>
  \<^verbatim>\<open>TSupportedProtocolData\<close> and \<^verbatim>\<open>TSupportedWalletData\<close> are read through the same two
  fields, \<^verbatim>\<open>name\<close> and \<^verbatim>\<open>isFeatured\<close>.  The record is extensible, as a JavaScript object
  may carry more fields than the wrapper reads.  The component state is the pair of
  \<^verbatim>\<open>useState\<close> cells; \<open>handleSearch\<close> filters the \<^verbatim>\<open>protocols\<close> (or \<^verbatim>\<open>wallets\<close>) prop,
  not the previous filtered list.
\<close>

record supported_data =
  name :: jsstring
  isFeatured :: bool

record 'a search_state =
  filteredItems :: "'a list"
  searchQuery :: jsstring

definition nameMatches ::
  "(jsstring \<Rightarrow> jsstring) \<Rightarrow> jsstring \<Rightarrow> 'a supported_data_scheme \<Rightarrow> bool" where
  "nameMatches toLowerCase query item =
     str_includes (toLowerCase (name item)) (toLowerCase query)"

definition ProtocolSearchWrapper_init ::
  "'a supported_data_scheme list \<Rightarrow> 'a supported_data_scheme search_state" where
  "ProtocolSearchWrapper_init protocols = \<lparr>filteredItems = protocols, searchQuery = []\<rparr>"

definition ProtocolSearchWrapper_handleSearch ::
  "(jsstring \<Rightarrow> jsstring) \<Rightarrow> 'a supported_data_scheme list \<Rightarrow> jsstring
     \<Rightarrow> 'a supported_data_scheme search_state \<Rightarrow> 'a supported_data_scheme search_state" where
  "ProtocolSearchWrapper_handleSearch toLowerCase protocols query st =
     st\<lparr>searchQuery := query, filteredItems := filter (nameMatches toLowerCase query) protocols\<rparr>"

definition featuredProtocols ::
  "'a supported_data_scheme search_state \<Rightarrow> 'a supported_data_scheme list" where
  "featuredProtocols st = filter (\<lambda>protocol. isFeatured protocol) (filteredItems st)"

definition nonFeaturedProtocols ::
  "'a supported_data_scheme search_state \<Rightarrow> 'a supported_data_scheme list" where
  "nonFeaturedProtocols st = filter (\<lambda>protocol. \<not> isFeatured protocol) (filteredItems st)"

definition WalletSearchWrapper_init ::
  "'a supported_data_scheme list \<Rightarrow> 'a supported_data_scheme search_state" where
  "WalletSearchWrapper_init wallets = \<lparr>filteredItems = wallets, searchQuery = []\<rparr>"

definition WalletSearchWrapper_handleSearch ::
  "(jsstring \<Rightarrow> jsstring) \<Rightarrow> 'a supported_data_scheme list \<Rightarrow> jsstring
     \<Rightarrow> 'a supported_data_scheme search_state \<Rightarrow> 'a supported_data_scheme search_state" where
  "WalletSearchWrapper_handleSearch toLowerCase wallets query st =
     st\<lparr>searchQuery := query, filteredItems := filter (nameMatches toLowerCase query) wallets\<rparr>"

definition featuredWallets ::
  "'a supported_data_scheme search_state \<Rightarrow> 'a supported_data_scheme list" where
  "featuredWallets st = filter (\<lambda>wallet. isFeatured wallet) (filteredItems st)"

definition nonFeaturedWallets ::
  "'a supported_data_scheme search_state \<Rightarrow> 'a supported_data_scheme list" where
  "nonFeaturedWallets st = filter (\<lambda>wallet. \<not> isFeatured wallet) (filteredItems st)"

text \<open>
  What a match on title or tag would select among wallets.  The title of a wallet is its
  name: \<^verbatim>\<open>WalletList\<close> renders each card with \<^verbatim>\<open>title={wallet.name}\<close>, and
  \<^verbatim>\<open>ProtocolList\<close> does the same for protocols.  No field of the wallet or protocol records
  is read as a tag anywhere in the source; \<open>walletTag\<close> stands for such a field on a record
  that carries one.
\<close>

record tagged_supported_data = supported_data +
  walletTag :: jsstring

definition titleOrTagMatches ::
  "(jsstring \<Rightarrow> jsstring) \<Rightarrow> jsstring \<Rightarrow> tagged_supported_data \<Rightarrow> bool" where
  "titleOrTagMatches toLowerCase query item =
     (str_includes (toLowerCase (name item)) (toLowerCase query) \<or>
      str_includes (toLowerCase (walletTag item)) (toLowerCase query))"

definition ledgerWallet :: tagged_supported_data where
  "ledgerWallet = \<lparr>name = js ''Ledger'', isFeatured = False, walletTag = js ''Hardware''\<rparr>"


section \<open>ResourceGrid\<close>

text \<open>
  The \<^verbatim>\<open>items\<close> prop is an array, \<^verbatim>\<open>null\<close> or \<^verbatim>\<open>undefined\<close>; \<^verbatim>\<open>isLoading\<close>,
  \<^verbatim>\<open>emptyMessage\<close> and \<^verbatim>\<open>className\<close> are optional props with defaults.  The rendered tree is
  kept up to the three shapes the component returns: the loading placeholder, the
  empty-state paragraph with its text, and the grid with its class and its children.
\<close>

datatype 'a nullable = Undefined | Null | Value 'a

datatype 'n grid_view =
    LoadingPlaceholder
  | EmptyState string
  | Grid string "'n list"

definition withDefault :: "'a option \<Rightarrow> 'a \<Rightarrow> 'a" where
  "withDefault prop d = (case prop of None \<Rightarrow> d | Some v \<Rightarrow> v)"

definition ResourceGrid ::
  "'a list nullable \<Rightarrow> ('a \<Rightarrow> nat \<Rightarrow> 'n) \<Rightarrow> bool option \<Rightarrow> string option \<Rightarrow> string option
     \<Rightarrow> 'n grid_view" where
  "ResourceGrid items renderItem isLoadingProp emptyMessageProp classNameProp =
     (let isLoading = withDefault isLoadingProp False;
          emptyMessage = withDefault emptyMessageProp ''No items available yet.'';
          className = withDefault classNameProp []
      in if isLoading then LoadingPlaceholder
         else case items of
                Undefined \<Rightarrow> EmptyState emptyMessage
              | Null \<Rightarrow> EmptyState emptyMessage
              | Value xs \<Rightarrow>
                  if length xs = 0 then EmptyState emptyMessage
                  else Grid (''mb-20 grid gap-6 md:grid-cols-2 lg:grid-cols-3 '' @ className)
                         (map (\<lambda>(item, index). renderItem item index) (zip xs [0 ..< length xs])))"

definition cards :: "'n grid_view \<Rightarrow> 'n list" where
  "cards v = (case v of Grid _ children \<Rightarrow> children | _ \<Rightarrow> [])"

definition shownMessage :: "'n grid_view \<Rightarrow> string option" where
  "shownMessage v = (case v of EmptyState m \<Rightarrow> Some m | _ \<Rightarrow> None)"


section \<open>FAQ scroll-spy\<close>

text \<open>
  \<^verbatim>\<open>sectionRefs.current\<close> maps a section title to its element or to \<^verbatim>\<open>null\<close>; it is kept
  as the list \<^verbatim>\<open>Object.entries\<close> returns, each title once.  Of an element only
  \<^verbatim>\<open>getBoundingClientRect().top\<close> is read, a real number here.  A section position is the
  pair of \<^verbatim>\<open>title\<close> and \<^verbatim>\<open>top\<close>.
\<close>

record html_element =
  rectTop :: real

type_synonym section_refs = "(string \<times> html_element option) list"

type_synonym section_position = "string \<times> real"

definition sectionPositions :: "section_refs \<Rightarrow> section_position list" where
  "sectionPositions refs =
     map (\<lambda>(sectionTitle, element).
            (sectionTitle, case element of None \<Rightarrow> 0 | Some el \<Rightarrow> rectTop el)) refs"

definition pickCloser :: "section_position \<Rightarrow> section_position \<Rightarrow> section_position" where
  "pickCloser closest current =
     (let currentDistance = \<bar>snd current - 160\<bar>;
          closestDistance = \<bar>snd closest - 160\<bar>
      in if currentDistance < closestDistance then current else closest)"

definition closestSection :: "section_position list \<Rightarrow> section_position" where
  "closestSection positions =
     foldl pickCloser (case positions of [] \<Rightarrow> ([], 0) | first # _ \<Rightarrow> first) positions"

text \<open>
  The component state: the \<^verbatim>\<open>activeSection\<close> cell, the two refs \<^verbatim>\<open>isManualScrolling\<close> and
  \<^verbatim>\<open>rafId\<close>, and what the window holds for the component: the animation frames requested and
  not yet run or cancelled, the next frame handle, the number of reset timeouts still to
  fire, and the target of the last \<^verbatim>\<open>window.scrollTo\<close>.
\<close>

record faq_state =
  activeSection :: string
  isManualScrolling :: bool
  rafId :: "nat option"
  pendingFrames :: "nat list"
  nextFrameId :: nat
  pendingTimeouts :: nat
  scrollTarget :: "real option"

definition FAQContent_init :: faq_state where
  "FAQContent_init =
     \<lparr>activeSection = [], isManualScrolling = False, rafId = None, pendingFrames = [],
      nextFrameId = 1, pendingTimeouts = 0, scrollTarget = None\<rparr>"

definition cancelAnimationFrame :: "nat \<Rightarrow> nat list \<Rightarrow> nat list" where
  "cancelAnimationFrame handle frames = removeAll handle frames"

definition handleScroll :: "faq_state \<Rightarrow> faq_state" where
  "handleScroll st =
     (if isManualScrolling st then st
      else let frames = (case rafId st of
                           None \<Rightarrow> pendingFrames st
                         | Some handle \<Rightarrow>
                             if handle \<noteq> 0 then cancelAnimationFrame handle (pendingFrames st)
                             else pendingFrames st);
               handle = nextFrameId st
           in st\<lparr>rafId := Some handle, pendingFrames := frames @ [handle],
                 nextFrameId := handle + 1\<rparr>)"

definition animationFrame :: "nat \<Rightarrow> section_refs \<Rightarrow> faq_state \<Rightarrow> faq_state" where
  "animationFrame handle refs st =
     (if handle \<in> set (pendingFrames st)
      then st\<lparr>pendingFrames := removeAll handle (pendingFrames st),
               activeSection := fst (closestSection (sectionPositions refs))\<rparr>
      else st)"

definition scrollToSection :: "string \<Rightarrow> section_refs \<Rightarrow> real \<Rightarrow> faq_state \<Rightarrow> faq_state" where
  "scrollToSection sectionTitle refs scrollY st =
     (case map_of refs sectionTitle of
        None \<Rightarrow> st
      | Some None \<Rightarrow> st
      | Some (Some element) \<Rightarrow>
          st\<lparr>isManualScrolling := True,
             activeSection := sectionTitle,
             scrollTarget := Some (rectTop element + scrollY - 160),
             pendingTimeouts := pendingTimeouts st + 1\<rparr>)"

definition timeoutFires :: "faq_state \<Rightarrow> faq_state" where
  "timeoutFires st =
     (if pendingTimeouts st = 0 then st
      else st\<lparr>isManualScrolling := False, pendingTimeouts := pendingTimeouts st - 1\<rparr>)"

datatype faq_event =
    Scroll
  | AnimationFrame nat section_refs
  | Click string section_refs real
  | Timeout

fun faq_step :: "faq_state \<Rightarrow> faq_event \<Rightarrow> faq_state" where
  "faq_step st Scroll = handleScroll st"
| "faq_step st (AnimationFrame handle refs) = animationFrame handle refs st"
| "faq_step st (Click sectionTitle refs scrollY) = scrollToSection sectionTitle refs scrollY st"
| "faq_step st Timeout = timeoutFires st"

definition faq_run :: "faq_state \<Rightarrow> faq_event list \<Rightarrow> faq_state" where
  "faq_run st events = foldl faq_step st events"

definition FAQContent_mount :: faq_state where
  "FAQContent_mount = handleScroll FAQContent_init"

definition isScrollOrFrame :: "faq_event \<Rightarrow> bool" where
  "isScrollOrFrame e = (case e of Scroll \<Rightarrow> True | AnimationFrame _ _ \<Rightarrow> True | _ \<Rightarrow> False)"

definition faqRefs :: section_refs where
  "faqRefs =
     [(''Basics'', Some \<lparr>rectTop = -240\<rparr>),
      (''Wallets'', Some \<lparr>rectTop = 100\<rparr>),
      (''Trading'', Some \<lparr>rectTop = 220\<rparr>),
      (''Security'', Some \<lparr>rectTop = 900\<rparr>)]"


section \<open>CMS fetch utilities\<close>

subsection \<open>JavaScript values, requests and responses\<close>

text \<open>
  A parsed JSON document is a \<open>jsval\<close>; \<open>JUndefined\<close> is what reading an absent property
  gives.  Numbers are kept as integers: the utilities only test them for truthiness.  An
  object is the list of its properties, each key once.
\<close>

datatype jsval =
    JUndefined
  | JNull
  | JBool bool
  | JNum int
  | JStr string
  | JArr "jsval list"
  | JObj "(string \<times> jsval) list"

text \<open>A thrown value: an \<^verbatim>\<open>Error\<close> with its message, or anything else with its \<^verbatim>\<open>String(...)\<close>.\<close>

datatype js_thrown = JsError string | JsNonError string

definition errorMessage :: "js_thrown \<Rightarrow> string" where
  "errorMessage error = (case error of JsError message \<Rightarrow> message | JsNonError shown \<Rightarrow> shown)"

fun truthy :: "jsval \<Rightarrow> bool" where
  "truthy JUndefined = False"
| "truthy JNull = False"
| "truthy (JBool b) = b"
| "truthy (JNum n) = (n \<noteq> 0)"
| "truthy (JStr s) = (s \<noteq> [])"
| "truthy (JArr xs) = True"
| "truthy (JObj props) = True"

definition orNull :: "jsval \<Rightarrow> jsval" where
  "orNull v = (if truthy v then v else JNull)"

text \<open>\<^verbatim>\<open>data.data\<close>: reading a property of \<^verbatim>\<open>null\<close> or \<^verbatim>\<open>undefined\<close> throws a TypeError.\<close>

fun getData :: "jsval \<Rightarrow> js_thrown + jsval" where
  "getData JUndefined = Inl (JsError ''Cannot read properties of undefined'')"
| "getData JNull = Inl (JsError ''Cannot read properties of null'')"
| "getData (JObj props) = Inr (case map_of props ''data'' of None \<Rightarrow> JUndefined | Some v \<Rightarrow> v)"
| "getData v = Inr JUndefined"

text \<open>\<^verbatim>\<open>v?.[0]\<close>: \<^verbatim>\<open>undefined\<close> on \<^verbatim>\<open>null\<close> and \<^verbatim>\<open>undefined\<close>, else the property \<^verbatim>\<open>0\<close>.\<close>

fun optionalFirst :: "jsval \<Rightarrow> jsval" where
  "optionalFirst (JArr []) = JUndefined"
| "optionalFirst (JArr (x # xs)) = x"
| "optionalFirst (JStr []) = JUndefined"
| "optionalFirst (JStr (c # s)) = JStr [c]"
| "optionalFirst (JObj props) = (case map_of props ''0'' of None \<Rightarrow> JUndefined | Some v \<Rightarrow> v)"
| "optionalFirst v = JUndefined"

text \<open>
  The second argument of \<^verbatim>\<open>fetch\<close>, with the options a request can carry; an option the
  object literal does not mention is \<open>None\<close>.  A call \<^verbatim>\<open>fetch(url)\<close> has no such argument.
  The method of a request is \<^verbatim>\<open>GET\<close> unless the options say otherwise.
\<close>

record request_init =
  headers :: "(string \<times> string) list"
  nextRevalidate :: "nat option"
  httpMethod :: "string option"
  body :: "string option"

record request =
  url :: string
  init :: "request_init option"

definition requestMethod :: "request \<Rightarrow> string" where
  "requestMethod req =
     (case init req of
        None \<Rightarrow> ''GET''
      | Some options \<Rightarrow> (case httpMethod options of None \<Rightarrow> ''GET'' | Some m \<Rightarrow> m))"

definition requestBody :: "request \<Rightarrow> string option" where
  "requestBody req = (case init req of None \<Rightarrow> None | Some options \<Rightarrow> body options)"

definition methodOverride :: "request \<Rightarrow> string option" where
  "methodOverride req = (case init req of None \<Rightarrow> None | Some options \<Rightarrow> httpMethod options)"

definition isRead :: "request \<Rightarrow> bool" where
  "isRead req = (methodOverride req = None \<and> requestBody req = None \<and> requestMethod req = ''GET'')"

record response =
  ok :: bool
  status :: nat
  json :: "js_thrown + jsval"

text \<open>
  The network answers a request by rejecting (\<open>Inl\<close>) or by a response.  The process
  environment supplies the two configuration strings.  Running a utility gives what its
  promise settles to (\<open>Inl\<close> if it rejects), the \<^verbatim>\<open>console.error\<close> calls with their
  arguments, and the requests sent.
\<close>

type_synonym network = "request \<Rightarrow> js_thrown + response"

record process_env =
  STRAPI_URL :: string
  STRAPI_API_TOKEN :: string

record fetch_run =
  returned :: "js_thrown + jsval"
  consoleErrors :: "string list list"
  requests :: "request list"

definition digitChar :: "nat \<Rightarrow> char" where
  "digitChar d = ''0123456789'' ! d"

fun string_of_nat :: "nat \<Rightarrow> string" where
  "string_of_nat n =
     (if n < 10 then [digitChar n] else string_of_nat (n div 10) @ [digitChar (n mod 10)])"

declare string_of_nat.simps [simp del]

definition apiConfig :: "process_env \<Rightarrow> request_init" where
  "apiConfig env =
     \<lparr>headers = [(''Authorization'', ''Bearer '' @ STRAPI_API_TOKEN env)],
      nextRevalidate = Some 3600, httpMethod = None, body = None\<rparr>"

definition failed :: "string list \<Rightarrow> request \<Rightarrow> fetch_run" where
  "failed logged req = \<lparr>returned = Inr JNull, consoleErrors = [logged], requests = [req]\<rparr>"

definition succeeded :: "jsval \<Rightarrow> request \<Rightarrow> fetch_run" where
  "succeeded v req = \<lparr>returned = Inr v, consoleErrors = [], requests = [req]\<rparr>"

subsection \<open>The utilities\<close>

text \<open>
  Each utility is given with the request it passes to \<^verbatim>\<open>fetch\<close> written as a definition of
  its own, followed by the body of its \<^verbatim>\<open>try\<close>/\<^verbatim>\<open>catch\<close>.
\<close>

definition fetchAllProtocols_request :: "process_env \<Rightarrow> request" where
  "fetchAllProtocols_request env =
     \<lparr>url = STRAPI_URL env @ ''/api/supported-protocols?populate=*'',
       init = Some (apiConfig env)\<rparr>"

definition fetchAllProtocols :: "process_env \<Rightarrow> network \<Rightarrow> fetch_run" where
  "fetchAllProtocols env net =
     (let req = fetchAllProtocols_request env
      in case net req of
           Inl error \<Rightarrow> failed [''Error fetching protocols:'', errorMessage error] req
         | Inr response \<Rightarrow>
             if \<not> ok response
             then failed [''Failed to fetch protocols: '' @ string_of_nat (status response)] req
             else (case json response of
                     Inl error \<Rightarrow> failed [''Error fetching protocols:'', errorMessage error] req
                   | Inr data \<Rightarrow>
                       (case getData data of
                          Inl error \<Rightarrow> failed [''Error fetching protocols:'', errorMessage error] req
                        | Inr d \<Rightarrow> succeeded (orNull d) req)))"

definition fetchAllChains_request :: "process_env \<Rightarrow> request" where
  "fetchAllChains_request env =
     \<lparr>url = STRAPI_URL env @ ''/api/supported-chains?populate=*'',
       init = Some (apiConfig env)\<rparr>"

definition fetchAllChains :: "process_env \<Rightarrow> network \<Rightarrow> fetch_run" where
  "fetchAllChains env net =
     (let req = fetchAllChains_request env
      in case net req of
           Inl error \<Rightarrow> failed [''Error fetching chains:'', errorMessage error] req
         | Inr response \<Rightarrow>
             if \<not> ok response
             then failed [''Failed to fetch chains: '' @ string_of_nat (status response)] req
             else (case json response of
                     Inl error \<Rightarrow> failed [''Error fetching chains:'', errorMessage error] req
                   | Inr data \<Rightarrow>
                       (case getData data of
                          Inl error \<Rightarrow> failed [''Error fetching chains:'', errorMessage error] req
                        | Inr d \<Rightarrow> succeeded (orNull d) req)))"

definition fetchAllWallets_request :: "process_env \<Rightarrow> request" where
  "fetchAllWallets_request env =
     \<lparr>url = STRAPI_URL env @ ''/api/supported-wallets?populate=*'',
       init = Some (apiConfig env)\<rparr>"

definition fetchAllWallets :: "process_env \<Rightarrow> network \<Rightarrow> fetch_run" where
  "fetchAllWallets env net =
     (let req = fetchAllWallets_request env
      in case net req of
           Inl error \<Rightarrow> failed [''Error fetching wallets:'', errorMessage error] req
         | Inr response \<Rightarrow>
             if \<not> ok response
             then failed [''Failed to fetch wallets: '' @ string_of_nat (status response)] req
             else (case json response of
                     Inl error \<Rightarrow> failed [''Error fetching wallets:'', errorMessage error] req
                   | Inr data \<Rightarrow>
                       (case getData data of
                          Inl error \<Rightarrow> failed [''Error fetching wallets:'', errorMessage error] req
                        | Inr d \<Rightarrow> succeeded (orNull d) req)))"

definition quoted :: "string \<Rightarrow> string" where
  "quoted s = [CHR 0x22] @ s @ [CHR 0x22]"

definition fetchDiscoverBySlug_request :: "process_env \<Rightarrow> string \<Rightarrow> request" where
  "fetchDiscoverBySlug_request env slugArg =
     \<lparr>url = STRAPI_URL env @ ''/api/discovers?filters[slug][$eq]='' @ slugArg @
       ''&populate[0]=features&fields[1]=title&fields[2]=description&populate[3]=featuredImg&populate[4]=features.image&fields[5]=tag&populate[6]=features.buttonCta'',
       init = Some (apiConfig env)\<rparr>"

definition fetchDiscoverBySlug :: "process_env \<Rightarrow> string \<Rightarrow> network \<Rightarrow> fetch_run" where
  "fetchDiscoverBySlug env slugArg net =
     (let req = fetchDiscoverBySlug_request env slugArg;
          caught = (\<lambda>error. failed
                     [''Error fetching discover data for slug '' @ quoted slugArg @ '':'',
                      errorMessage error] req)
      in case net req of
           Inl error \<Rightarrow> caught error
         | Inr response \<Rightarrow>
             if \<not> ok response
             then failed [''Failed to fetch discover data for slug '' @ quoted slugArg @ '': '' @
                          string_of_nat (status response)] req
             else (case json response of
                     Inl error \<Rightarrow> caught error
                   | Inr data \<Rightarrow>
                       (case getData data of
                          Inl error \<Rightarrow> caught error
                        | Inr d \<Rightarrow> succeeded (orNull (optionalFirst d)) req)))"

definition fetchFaqData_request :: "process_env \<Rightarrow> request" where
  "fetchFaqData_request env =
     \<lparr>url = STRAPI_URL env @
       ''/api/faq?populate[faqSection][populate][faqSectionItem][populate]=*'',
       init = Some (apiConfig env)\<rparr>"

definition fetchFaqData :: "process_env \<Rightarrow> network \<Rightarrow> fetch_run" where
  "fetchFaqData env net =
     (let req = fetchFaqData_request env
      in case net req of
           Inl error \<Rightarrow> failed [''Error fetching FAQ data:'', errorMessage error] req
         | Inr response \<Rightarrow>
             if \<not> ok response
             then failed [''Failed to fetch FAQ data: '' @ string_of_nat (status response)] req
             else (case json response of
                     Inl error \<Rightarrow> failed [''Error fetching FAQ data:'', errorMessage error] req
                   | Inr data \<Rightarrow>
                       (case getData data of
                          Inl error \<Rightarrow> failed [''Error fetching FAQ data:'', errorMessage error] req
                        | Inr d \<Rightarrow> succeeded (orNull d) req)))"

definition fetchWithErrorHandling_request :: "process_env \<Rightarrow> string \<Rightarrow> string \<Rightarrow> request" where
  "fetchWithErrorHandling_request env endpoint queryParams =
     \<lparr>url = STRAPI_URL env @ ''/api/'' @ endpoint @ ''?'' @ queryParams,
       init = Some \<lparr>headers = [(''Authorization'', ''Bearer '' @ STRAPI_API_TOKEN env)],
       nextRevalidate = Some 3600, httpMethod = None, body = None\<rparr>\<rparr>"

definition fetchWithErrorHandling ::
  "process_env \<Rightarrow> string \<Rightarrow> string \<Rightarrow> string \<Rightarrow> network \<Rightarrow> fetch_run" where
  "fetchWithErrorHandling env endpoint queryParams errorContext net =
     (let req = fetchWithErrorHandling_request env endpoint queryParams;
          caught = (\<lambda>error. failed
                     [''Error fetching '' @ errorContext @ '':'', errorMessage error] req)
      in case net req of
           Inl error \<Rightarrow> caught error
         | Inr response \<Rightarrow>
             if \<not> ok response
             then failed [''Failed to fetch '' @ errorContext @ '': Status '' @
                          string_of_nat (status response)] req
             else (case json response of
                     Inl error \<Rightarrow> caught error
                   | Inr data \<Rightarrow>
                       (case getData data of
                          Inl error \<Rightarrow> caught error
                        | Inr d \<Rightarrow> succeeded d req)))"

text \<open>The six utilities under one name, to speak of all of them at once.\<close>

datatype utility =
    FetchAllProtocols
  | FetchAllChains
  | FetchAllWallets
  | FetchDiscoverBySlug string
  | FetchFaqData
  | FetchWithErrorHandling string string string

fun runUtility :: "process_env \<Rightarrow> utility \<Rightarrow> network \<Rightarrow> fetch_run" where
  "runUtility env FetchAllProtocols net = fetchAllProtocols env net"
| "runUtility env FetchAllChains net = fetchAllChains env net"
| "runUtility env FetchAllWallets net = fetchAllWallets env net"
| "runUtility env (FetchDiscoverBySlug slugArg) net = fetchDiscoverBySlug env slugArg net"
| "runUtility env FetchFaqData net = fetchFaqData env net"
| "runUtility env (FetchWithErrorHandling endpoint queryParams errorContext) net =
     fetchWithErrorHandling env endpoint queryParams errorContext net"

fun utilityRequest :: "process_env \<Rightarrow> utility \<Rightarrow> request" where
  "utilityRequest env FetchAllProtocols = fetchAllProtocols_request env"
| "utilityRequest env FetchAllChains = fetchAllChains_request env"
| "utilityRequest env FetchAllWallets = fetchAllWallets_request env"
| "utilityRequest env (FetchDiscoverBySlug slugArg) = fetchDiscoverBySlug_request env slugArg"
| "utilityRequest env FetchFaqData = fetchFaqData_request env"
| "utilityRequest env (FetchWithErrorHandling endpoint queryParams errorContext) =
     fetchWithErrorHandling_request env endpoint queryParams"

text \<open>What a utility returns for the \<^verbatim>\<open>data\<close> field \<open>d\<close> of an OK response.\<close>

fun payload :: "utility \<Rightarrow> jsval \<Rightarrow> jsval" where
  "payload (FetchDiscoverBySlug slugArg) d = orNull (optionalFirst d)"
| "payload (FetchWithErrorHandling endpoint queryParams errorContext) d = d"
| "payload u d = orNull d"


text \<open>Concrete environments and networks, for evaluating the utilities.\<close>

definition exampleEnv :: process_env where
  "exampleEnv = \<lparr>STRAPI_URL = ''https://cms.example'', STRAPI_API_TOKEN = ''token''\<rparr>"

definition offlineNetwork :: network where
  "offlineNetwork req = Inl (JsError ''fetch failed'')"

definition notFoundNetwork :: network where
  "notFoundNetwork req = Inr \<lparr>ok = False, status = 404, json = Inr (JObj [])\<rparr>"

definition emptyObjectNetwork :: network where
  "emptyObjectNetwork req = Inr \<lparr>ok = True, status = 200, json = Inr (JObj [])\<rparr>"

definition malformedNetwork :: network where
  "malformedNetwork req =
     Inr \<lparr>ok = True, status = 200, json = Inl (JsError ''Unexpected token < in JSON'')\<rparr>"

definition listNetwork :: network where
  "listNetwork req =
     Inr \<lparr>ok = True, status = 200,
          json = Inr (JObj [(''data'', JArr [JObj [(''slug'', JStr ''ledger'')]])])\<rparr>"


subsection \<open>Requests made by pages\<close>

text \<open>
  The other \<^verbatim>\<open>fetch\<close> calls of the source sit in page components and in
  \<^verbatim>\<open>generateMetadata\<close> functions.  Each is given by the request it sends: the URL and, where
  the call passes one, the options object, which holds the authorization header only.
\<close>

definition bearerOnly :: "process_env \<Rightarrow> request_init" where
  "bearerOnly env =
     \<lparr>headers = [(''Authorization'', ''Bearer '' @ STRAPI_API_TOKEN env)],
      nextRevalidate = None, httpMethod = None, body = None\<rparr>"

datatype page_fetch =
    ProtocolMetadata string
  | WalletMetadata string
  | ChainMetadata string
  | NewsroomPostMetadata string
  | BlogPostMetadata string
  | BlogTagsPage string
  | NewsroomTagsPage string
  | BlogCategoriesPage string
  | NewsroomCategoriesPage string
  | GhostGetPost string
  | GhostBlog

fun pageRequest :: "process_env \<Rightarrow> page_fetch \<Rightarrow> request" where
  "pageRequest env (ProtocolMetadata slugArg) =
     \<lparr>url = STRAPI_URL env @ ''/api/supported-protocols?filters[slug][$eq]='' @ slugArg @
             ''&populate=*'',
      init = Some (bearerOnly env)\<rparr>"
| "pageRequest env (WalletMetadata slugArg) =
     \<lparr>url = STRAPI_URL env @ ''/api/supported-wallets?filters[slug][$eq]='' @ slugArg @
             ''&populate=*'',
      init = Some (bearerOnly env)\<rparr>"
| "pageRequest env (ChainMetadata slugArg) =
     \<lparr>url = STRAPI_URL env @ ''/api/supported-chains?filters[slug][$eq]='' @ slugArg @
             ''&populate=*'',
      init = Some (bearerOnly env)\<rparr>"
| "pageRequest env (NewsroomPostMetadata slugArg) =
     \<lparr>url = STRAPI_URL env @ ''/api/newsrooms?filters[slug][$eq]='' @ slugArg @
             ''&fields[0]=postSummary&fields[1]=tags&fields[2]=title&fields[3]=publishedAt&populate[0]=featuredImg'',
      init = Some (bearerOnly env)\<rparr>"
| "pageRequest env (BlogPostMetadata slugArg) =
     \<lparr>url = STRAPI_URL env @ ''/api/posts?filters[slug][$eq]='' @ slugArg @
             ''&fields[0]=summary&fields[2]=tags&fields[3]=title&fields[4]=publishedAt&populate[0]=featuredImg'',
      init = Some (bearerOnly env)\<rparr>"
| "pageRequest env (BlogTagsPage tagArg) =
     \<lparr>url = STRAPI_URL env @ ''/api/posts?filters[tags][$contains]='' @ tagArg @
             ''&fields[0]=title&fields[1]=slug&fields[2]=publishedAt&populate[0]=featuredImg&sort[0]=publishedAt:desc'',
      init = Some (bearerOnly env)\<rparr>"
| "pageRequest env (NewsroomTagsPage tagArg) =
     \<lparr>url = STRAPI_URL env @ ''/api/newsrooms?filters[tags][$contains]='' @ tagArg @
             ''&fields[0]=title&fields[1]=slug&fields[2]=publishedAt&populate[0]=featuredImg&sort[0]=publishedAt:desc'',
      init = Some (bearerOnly env)\<rparr>"
| "pageRequest env (BlogCategoriesPage category) =
     \<lparr>url = STRAPI_URL env @ ''/api/posts?filters[type][$contains]='' @ category @
             ''&fields[0]=title&fields[1]=slug&fields[2]=publishedAt&populate[0]=featuredImg&sort[0]=publishedAt:desc&pagination[pageSize]=1'',
      init = Some (bearerOnly env)\<rparr>"
| "pageRequest env (NewsroomCategoriesPage category) =
     \<lparr>url = STRAPI_URL env @ ''/api/newsrooms?filters[category][$contains]='' @ category @
             ''&fields[0]=title&fields[1]=slug&fields[2]=publishedAt&populate[0]=featuredImg&sort[0]=publishedAt:desc&pagination[pageSize]=1'',
      init = Some (bearerOnly env)\<rparr>"
| "pageRequest env (GhostGetPost slugArg) =
     \<lparr>url = ''https://w84april.ghost.io/ghost/api/content/posts/slug/'' @ slugArg @
             ''/?key=7945d41133160c2f1f1b430d77'',
      init = None\<rparr>"
| "pageRequest env GhostBlog =
     \<lparr>url = ''https://w84april.ghost.io/ghost/api/content/posts/?key=7945d41133160c2f1f1b430d77'',
      init = None\<rparr>"


definition nullBodyNetwork :: network where
  "nullBodyNetwork req = Inr \<lparr>ok = True, status = 200, json = Inr JNull\<rparr>"


section \<open>Posts: fetch hook, detail pages and paginated lists\<close>

subsection \<open>The options and the result of the fetch hooks\<close>

text \<open>
  The options object the components pass to \<^verbatim>\<open>useFetchPosts\<close> and \<^verbatim>\<open>useFetchNewsroom\<close>, and
  what they destructure from the result.  A property a call leaves out is \<open>None\<close>.  The
  field names carry the prefix \<open>arg\<close>; \<open>argSlug\<close> is the \<^verbatim>\<open>slug\<close> option, \<open>argSort\<close> the
  \<^verbatim>\<open>sort\<close> option, and so on.
\<close>

record post =
  slug :: string
  content :: string

record hook_args =
  argPage :: nat
  argPageSize :: nat
  argSort :: string
  argPopulateContent :: "bool option"
  argCachePosts :: "bool option"
  argSlug :: "string option"
  argTag :: "string option"
  argSkip :: "bool option"

record 'p hook_result =
  posts :: "'p list"
  pageCount :: "nat option"
  isLoading :: bool

subsection \<open>BlogPost, NewsroomPostPage and ProtocolPage\<close>

text \<open>
  What a detail page comes to: the loading skeleton, the not-found transition
  (\<^verbatim>\<open>notFound()\<close> does not return), or the article rendered from a record.  The hook is an
  argument of the component, as is the content of the cached-posts context.
  \<^verbatim>\<open>Array.prototype.find\<close> is \<open>find\<close>: the first match, or nothing.
\<close>

datatype 'p detail_view = Skeleton | NotFoundPage | Article 'p

definition BlogPost_args :: "string \<Rightarrow> 'a post_scheme list \<Rightarrow> hook_args" where
  "BlogPost_args slugParam cachedPosts =
     \<lparr>argPage = 1, argPageSize = 1, argSort = ''desc'', argPopulateContent = Some True,
      argCachePosts = Some True, argSlug = Some slugParam, argTag = None,
      argSkip = Some (find (\<lambda>p. slug p = slugParam) cachedPosts \<noteq> None)\<rparr>"

definition BlogPost ::
  "(hook_args \<Rightarrow> 'a post_scheme hook_result) \<Rightarrow> string \<Rightarrow> 'a post_scheme list
     \<Rightarrow> 'a post_scheme detail_view" where
  "BlogPost useFetchPosts slugParam cachedPosts =
     (let result = useFetchPosts (BlogPost_args slugParam cachedPosts);
          found = find (\<lambda>p. slug p = slugParam) (cachedPosts @ posts result)
      in if isLoading result then Skeleton
         else case found of None \<Rightarrow> NotFoundPage | Some p \<Rightarrow> Article p)"

definition NewsroomPostPage_args :: "string \<Rightarrow> 'a post_scheme list \<Rightarrow> hook_args" where
  "NewsroomPostPage_args slugParam cachedPosts =
     \<lparr>argPage = 1, argPageSize = 1, argSort = ''desc'', argPopulateContent = Some True,
      argCachePosts = Some True, argSlug = Some slugParam, argTag = None,
      argSkip = Some (find (\<lambda>p. slug p = slugParam) cachedPosts \<noteq> None)\<rparr>"

definition NewsroomPostPage ::
  "(hook_args \<Rightarrow> 'a post_scheme hook_result) \<Rightarrow> string \<Rightarrow> 'a post_scheme list
     \<Rightarrow> 'a post_scheme detail_view" where
  "NewsroomPostPage useFetchNewsroom slugParam cachedPosts =
     (let result = useFetchNewsroom (NewsroomPostPage_args slugParam cachedPosts);
          found = find (\<lambda>p. slug p = slugParam) (cachedPosts @ posts result)
      in if isLoading result then Skeleton
         else case found of None \<Rightarrow> NotFoundPage | Some p \<Rightarrow> Article p)"

text \<open>
  \<^verbatim>\<open>ProtocolPage\<close> awaits \<^verbatim>\<open>getSupportedProtocol(slug)\<close>, an argument here: it rejects
  (\<open>Inl\<close>, and the page rejects with it) or gives a record, \<^verbatim>\<open>null\<close> or \<^verbatim>\<open>undefined\<close>.
\<close>

definition ProtocolPage ::
  "(string \<Rightarrow> js_thrown + 'p nullable) \<Rightarrow> string \<Rightarrow> js_thrown + 'p detail_view" where
  "ProtocolPage getSupportedProtocol slugParam =
     (case getSupportedProtocol slugParam of
        Inl error \<Rightarrow> Inl error
      | Inr Undefined \<Rightarrow> Inr NotFoundPage
      | Inr Null \<Rightarrow> Inr NotFoundPage
      | Inr (Value protocol) \<Rightarrow> Inr (Article protocol))"

subsection \<open>PostPage\<close>

text \<open>
  The post page of \<^verbatim>\<open>app/blog/[slug]/page.tsx\<close>.  \<^verbatim>\<open>getPost\<close> awaits the \<^verbatim>\<open>fetch\<close>, takes
  \<^verbatim>\<open>posts\<close> out of the parsed body by destructuring and returns \<^verbatim>\<open>posts[0]\<close>; it has no
  \<^verbatim>\<open>try\<close>/\<^verbatim>\<open>catch\<close> and does not look at \<^verbatim>\<open>response.ok\<close>.  \<^verbatim>\<open>PostPage\<close> renders the
  article from what \<^verbatim>\<open>getPost\<close> returns, reading \<^verbatim>\<open>post.title\<close> first.  Reading a property or
  an element of \<^verbatim>\<open>undefined\<close> or \<^verbatim>\<open>null\<close> throws a TypeError, and what is thrown rejects
  the page.
\<close>

fun getProperty :: "string \<Rightarrow> jsval \<Rightarrow> js_thrown + jsval" where
  "getProperty key JUndefined = Inl (JsError ''Cannot read properties of undefined'')"
| "getProperty key JNull = Inl (JsError ''Cannot read properties of null'')"
| "getProperty key (JObj props) =
     Inr (case map_of props key of None \<Rightarrow> JUndefined | Some v \<Rightarrow> v)"
| "getProperty key v = Inr JUndefined"

fun firstElement :: "jsval \<Rightarrow> js_thrown + jsval" where
  "firstElement JUndefined = Inl (JsError ''Cannot read properties of undefined'')"
| "firstElement JNull = Inl (JsError ''Cannot read properties of null'')"
| "firstElement (JArr []) = Inr JUndefined"
| "firstElement (JArr (x # xs)) = Inr x"
| "firstElement (JStr []) = Inr JUndefined"
| "firstElement (JStr (c # cs)) = Inr (JStr [c])"
| "firstElement (JObj props) =
     Inr (case map_of props ''0'' of None \<Rightarrow> JUndefined | Some v \<Rightarrow> v)"
| "firstElement v = Inr JUndefined"

definition getPost :: "process_env \<Rightarrow> network \<Rightarrow> string \<Rightarrow> js_thrown + jsval" where
  "getPost env net slugArg =
     (case net (pageRequest env (GhostGetPost slugArg)) of
        Inl error \<Rightarrow> Inl error
      | Inr response \<Rightarrow>
          (case json response of
             Inl error \<Rightarrow> Inl error
           | Inr data \<Rightarrow>
               (case getProperty ''posts'' data of
                  Inl error \<Rightarrow> Inl error
                | Inr ps \<Rightarrow> firstElement ps)))"

definition PostPage ::
  "process_env \<Rightarrow> network \<Rightarrow> string \<Rightarrow> js_thrown + jsval detail_view" where
  "PostPage env net slugParam =
     (case getPost env net slugParam of
        Inl error \<Rightarrow> Inl error
      | Inr p \<Rightarrow>
          (case getProperty ''title'' p of
             Inl error \<Rightarrow> Inl error
           | Inr t \<Rightarrow> Inr (Article p)))"

text \<open>
  The answers of the content API for a slug it has no post for, an error document with
  status 404, and for one it has; and an answer with an empty list of posts.
\<close>

definition ghostMissingNetwork :: network where
  "ghostMissingNetwork req =
     Inr \<lparr>ok = False, status = 404,
          json = Inr (JObj [(''errors'', JArr [JObj [(''type'', JStr ''NotFoundError'')]])])\<rparr>"

definition ghostEmptyNetwork :: network where
  "ghostEmptyNetwork req =
     Inr \<lparr>ok = True, status = 200, json = Inr (JObj [(''posts'', JArr [])])\<rparr>"

definition ghostFoundNetwork :: network where
  "ghostFoundNetwork req =
     Inr \<lparr>ok = True, status = 200,
          json = Inr (JObj [(''posts'', JArr [JObj [(''title'', JStr ''Hello'')]])])\<rparr>"

subsection \<open>The fetch hook\<close>

text \<open>
  The source holds the callers of \<^verbatim>\<open>useFetchPosts\<close> and \<^verbatim>\<open>useFetchNewsroom\<close> but not the
  hooks.  What the specification says of them: given its options the hook issues one HTTP
  GET, returns the page of items with the page count, and exposes a loading flag; it
  fetches on mount and again when an option changes; an error surfaces as an empty result
  with loading false; for a slug already cached the refetch is skipped and the detail view
  renders without a network request.
\<close>

record 'p cms_page =
  pageItems :: "'p list"
  totalPages :: nat

datatype 'p fetch_phase = InFlight | Settled "js_thrown + 'p cms_page"

text \<open>
  Modelled from the spec: the effect of the missing hooks \<^verbatim>\<open>useFetchPosts\<close> and
  \<^verbatim>\<open>useFetchNewsroom\<close>.  The requests, named by their options, that a render issues when
  the render before it had the options \<open>previous\<close> (\<open>None\<close> on mount): none with \<^verbatim>\<open>skip\<close>
  set, none when no option changed, one otherwise.
\<close>

definition useFetch_requests :: "hook_args option \<Rightarrow> hook_args \<Rightarrow> hook_args list" where
  "useFetch_requests previous args =
     (if argSkip args = Some True then []
      else if previous = Some args then []
      else [args])"

text \<open>
  Modelled from the spec: the value the missing hooks \<^verbatim>\<open>useFetchPosts\<close> and
  \<^verbatim>\<open>useFetchNewsroom\<close> return, while the request for the current options is in flight and
  once it has settled.
\<close>

definition useFetch :: "'p fetch_phase \<Rightarrow> hook_args \<Rightarrow> 'p hook_result" where
  "useFetch phase args =
     (if argSkip args = Some True then \<lparr>posts = [], pageCount = None, isLoading = False\<rparr>
      else case phase of
             InFlight \<Rightarrow> \<lparr>posts = [], pageCount = None, isLoading = True\<rparr>
           | Settled (Inl error) \<Rightarrow> \<lparr>posts = [], pageCount = None, isLoading = False\<rparr>
           | Settled (Inr pg) \<Rightarrow>
               \<lparr>posts = pageItems pg, pageCount = Some (totalPages pg), isLoading = False\<rparr>)"

subsection \<open>NewsroomList and ListOfPosts\<close>

text \<open>
  A paginated list keeps the \<^verbatim>\<open>page\<close> cell, initially 1, and calls the hook with it on every
  render.  While the hook reports \<^verbatim>\<open>isLoading\<close> the component returns the skeleton grid and
  nothing else; otherwise it returns the posts followed by \<^verbatim>\<open>ReactPaginate\<close>, with
  \<^verbatim>\<open>pageCount={pagination?.pageCount ?? 1}\<close> and
  \<^verbatim>\<open>onPageChange={({selected}) => setPage(selected + 1)}\<close>.

  \<^verbatim>\<open>ReactPaginate\<close> is the control of the react-paginate package.  The source passes it
  neither \<^verbatim>\<open>forcePage\<close> nor \<^verbatim>\<open>initialPage\<close>, so the control keeps the selected index
  itself: 0 when it mounts, then whatever was selected last, for as long as it stays
  mounted.  A click on its next button, when the selected index is below
  \<^verbatim>\<open>pageCount - 1\<close>, selects the following index and calls \<^verbatim>\<open>onPageChange\<close> with it; a click
  on a page other than the selected one selects it and calls \<^verbatim>\<open>onPageChange\<close> with it.

  The state: the \<^verbatim>\<open>page\<close> cell; what the hook keeps between renders, namely the options of
  the previous render, the requests issued so far and the phase of the current request;
  and the selected index of the mounted control, \<open>None\<close> while the skeleton is shown and
  no control is mounted.
\<close>

record list_state =
  page :: nat
  previousArgs :: "hook_args option"
  fetches :: "hook_args list"
  hookPhase :: "post fetch_phase"
  paginatorSelected :: "nat option"

text \<open>
  One render: the hook is called with the options for the current page; it issues a
  request when they changed, which makes it report loading; the control is unmounted by a
  render that returns the skeleton, mounted with index 0 by a render that returns it and
  finds none mounted, and kept otherwise.
\<close>

definition list_render :: "(nat \<Rightarrow> hook_args) \<Rightarrow> list_state \<Rightarrow> list_state" where
  "list_render argsOf st =
     (let args = argsOf (page st);
          issued = useFetch_requests (previousArgs st) args;
          current = (if issued = [] then hookPhase st else InFlight);
          result = useFetch current args
      in st\<lparr>previousArgs := Some args,
            fetches := fetches st @ issued,
            hookPhase := current,
            paginatorSelected :=
              (if isLoading result then None
               else case paginatorSelected st of None \<Rightarrow> Some 0 | Some selected \<Rightarrow> Some selected)\<rparr>)"

definition list_mount :: "(nat \<Rightarrow> hook_args) \<Rightarrow> list_state" where
  "list_mount argsOf =
     list_render argsOf
       \<lparr>page = 1, previousArgs = None, fetches = [], hookPhase = InFlight,
        paginatorSelected = None\<rparr>"

text \<open>The request in flight settles: the hook stores the outcome and the component renders.\<close>

definition list_settle ::
  "(nat \<Rightarrow> hook_args) \<Rightarrow> js_thrown + post cms_page \<Rightarrow> list_state \<Rightarrow> list_state" where
  "list_settle argsOf outcome st =
     (if hookPhase st = InFlight then list_render argsOf (st\<lparr>hookPhase := Settled outcome\<rparr>)
      else st)"

text \<open>\<^verbatim>\<open>onPageChange\<close>: \<^verbatim>\<open>setPage(selected + 1)\<close>, and the render it causes.\<close>

definition list_onPageChange :: "(nat \<Rightarrow> hook_args) \<Rightarrow> nat \<Rightarrow> list_state \<Rightarrow> list_state" where
  "list_onPageChange argsOf selected st = list_render argsOf (st\<lparr>page := selected + 1\<rparr>)"

text \<open>The \<^verbatim>\<open>pageCount\<close> prop the control is rendered with.\<close>

definition list_pageCount :: "(nat \<Rightarrow> hook_args) \<Rightarrow> list_state \<Rightarrow> nat" where
  "list_pageCount argsOf st =
     withDefault (pageCount (useFetch (hookPhase st) (argsOf (page st)))) 1"

text \<open>The user's clicks on the mounted control; a click with no control mounted hits nothing.\<close>

definition list_clickNext :: "(nat \<Rightarrow> hook_args) \<Rightarrow> list_state \<Rightarrow> list_state" where
  "list_clickNext argsOf st =
     (case paginatorSelected st of
        None \<Rightarrow> st
      | Some selected \<Rightarrow>
          if selected + 1 < list_pageCount argsOf st
          then list_onPageChange argsOf (selected + 1) (st\<lparr>paginatorSelected := Some (selected + 1)\<rparr>)
          else st)"

definition list_clickPage :: "(nat \<Rightarrow> hook_args) \<Rightarrow> nat \<Rightarrow> list_state \<Rightarrow> list_state" where
  "list_clickPage argsOf k st =
     (case paginatorSelected st of
        None \<Rightarrow> st
      | Some selected \<Rightarrow>
          if k < list_pageCount argsOf st \<and> k \<noteq> selected
          then list_onPageChange argsOf k (st\<lparr>paginatorSelected := Some k\<rparr>)
          else st)"

datatype list_event =
    FetchSettles "js_thrown + post cms_page"
  | ClickNext
  | ClickPage nat

fun list_step :: "(nat \<Rightarrow> hook_args) \<Rightarrow> list_state \<Rightarrow> list_event \<Rightarrow> list_state" where
  "list_step argsOf st (FetchSettles outcome) = list_settle argsOf outcome st"
| "list_step argsOf st ClickNext = list_clickNext argsOf st"
| "list_step argsOf st (ClickPage k) = list_clickPage argsOf k st"

text \<open>The two components: their options, and their state after a history of events.\<close>

definition NewsroomList_args :: "nat \<Rightarrow> hook_args" where
  "NewsroomList_args p =
     \<lparr>argPage = p, argPageSize = 12, argSort = ''desc'', argPopulateContent = Some True,
      argCachePosts = Some True, argSlug = None, argTag = None, argSkip = None\<rparr>"

definition NewsroomList_onPageChange :: "nat \<Rightarrow> list_state \<Rightarrow> list_state" where
  "NewsroomList_onPageChange selected st = list_onPageChange NewsroomList_args selected st"

definition NewsroomList_after :: "list_event list \<Rightarrow> list_state" where
  "NewsroomList_after events =
     foldl (list_step NewsroomList_args) (list_mount NewsroomList_args) events"

definition ListOfPosts_args :: "string \<Rightarrow> nat \<Rightarrow> hook_args" where
  "ListOfPosts_args tagProp p =
     \<lparr>argPage = p, argPageSize = 12, argSort = ''desc'', argPopulateContent = Some True,
      argCachePosts = Some True, argSlug = None, argTag = Some tagProp, argSkip = None\<rparr>"

definition ListOfPosts_onPageChange :: "string \<Rightarrow> nat \<Rightarrow> list_state \<Rightarrow> list_state" where
  "ListOfPosts_onPageChange tagProp selected st =
     list_onPageChange (ListOfPosts_args tagProp) selected st"

definition ListOfPosts_after :: "string \<Rightarrow> list_event list \<Rightarrow> list_state" where
  "ListOfPosts_after tagProp events =
     foldl (list_step (ListOfPosts_args tagProp)) (list_mount (ListOfPosts_args tagProp)) events"

text \<open>The answer of the CMS to every page request: one page of three.\<close>

definition pageOfThree :: "js_thrown + post cms_page" where
  "pageOfThree = Inr \<lparr>pageItems = [], totalPages = 3\<rparr>"

text \<open>Concrete posts, for evaluating the pages.\<close>

definition foxPost :: post where
  "foxPost = \<lparr>slug = ''fox-token'', content = ''About FOX''\<rparr>"

definition daoPost :: post where
  "daoPost = \<lparr>slug = ''dao-update'', content = ''DAO update''\<rparr>"


definition emptyHook :: "hook_args \<Rightarrow> post hook_result" where
  "emptyHook args = \<lparr>posts = [], pageCount = Some 0, isLoading = False\<rparr>"

definition foxHook :: "hook_args \<Rightarrow> post hook_result" where
  "foxHook args = \<lparr>posts = [foxPost], pageCount = Some 1, isLoading = False\<rparr>"

definition noProtocol :: "string \<Rightarrow> js_thrown + supported_data nullable" where
  "noProtocol slugParam = Inr Null"

definition thorchain :: supported_data where
  "thorchain = \<lparr>name = js ''THORChain'', isFeatured = True\<rparr>"

definition oneProtocol :: "string \<Rightarrow> js_thrown + supported_data nullable" where
  "oneProtocol slugParam = (if slugParam = ''thorchain'' then Inr (Value thorchain) else Inr Null)"


section \<open>Search wrappers: results\<close>

lemma startsWith_iff: "startsWith s t \<longleftrightarrow> (\<exists>r. s = t @ r)"
  by (induction s t rule: startsWith.induct) auto

lemma str_includes_iff: "str_includes s t \<longleftrightarrow> (\<exists>p r. s = p @ t @ r)"
proof (induction s)
  case Nil
  show ?case by auto
next
  case (Cons d s)
  show ?case
  proof
    assume "str_includes (d # s) t"
    then consider "startsWith (d # s) t" | "str_includes s t" by auto
    then show "\<exists>p r. d # s = p @ t @ r"
    proof cases
      case 1
      then obtain r where "d # s = t @ r" by (auto simp: startsWith_iff)
      then have "d # s = [] @ t @ r" by simp
      then show ?thesis by blast
    next
      case 2
      with Cons obtain p r where "s = p @ t @ r" by auto
      then have "d # s = (d # p) @ t @ r" by simp
      then show ?thesis by blast
    qed
  next
    assume "\<exists>p r. d # s = p @ t @ r"
    then obtain p r where eq: "d # s = p @ t @ r" by auto
    show "str_includes (d # s) t"
    proof (cases p)
      case Nil
      with eq have "startsWith (d # s) t" by (auto simp: startsWith_iff)
      then show ?thesis by simp
    next
      case (Cons e p')
      with eq have "s = p' @ t @ r" by simp
      with Cons.IH have "str_includes s t" by blast
      then show ?thesis by simp
    qed
  qed
qed

lemma discoverMatches_iff:
  "discoverMatches toLowerCase q =
     (\<lambda>item. (\<exists>p r. toLowerCase (title item) = p @ toLowerCase q @ r) \<or>
             (\<exists>p r. toLowerCase (tag item) = p @ toLowerCase q @ r))"
  by (rule ext) (simp add: discoverMatches_def str_includes_iff)

lemma nameMatches_iff:
  "nameMatches toLowerCase q =
     (\<lambda>item. \<exists>p r. toLowerCase (name item) = p @ toLowerCase q @ r)"
  by (rule ext) (simp add: nameMatches_def str_includes_iff)

text \<open>
  C1 (as amended).  Whatever function \<^verbatim>\<open>toLowerCase\<close> is: the discover wrapper keeps, in
  input order, exactly the items whose lower-cased title or lower-cased tag contains the
  lower-cased search string.  The protocol and the wallet wrapper keep, in input order,
  exactly the items whose lower-cased \<^verbatim>\<open>name\<close>, the title their cards show, contains the
  lower-cased search string; no other field takes part.
\<close>

theorem search_wrappers_filter:
  "filteredDiscover toLowerCase (Some items) q =
     Some (filter (\<lambda>item. (\<exists>p r. toLowerCase (title item) = p @ toLowerCase q @ r) \<or>
                           (\<exists>p r. toLowerCase (tag item) = p @ toLowerCase q @ r)) items)
   \<and> filteredItems (ProtocolSearchWrapper_handleSearch toLowerCase protocols q st) =
       filter (\<lambda>item. \<exists>p r. toLowerCase (name item) = p @ toLowerCase q @ r) protocols
   \<and> filteredItems (WalletSearchWrapper_handleSearch toLowerCase wallets q st') =
       filter (\<lambda>item. \<exists>p r. toLowerCase (name item) = p @ toLowerCase q @ r) wallets"
  by (simp add: filteredDiscover_def ProtocolSearchWrapper_handleSearch_def
      WalletSearchWrapper_handleSearch_def discoverMatches_iff nameMatches_iff)

text \<open>
  The discover filter on concrete entries: the match ignores case in both directions,
  also beyond ASCII (the third title starts with U+00C9, the query with U+00E9), the empty
  query keeps everything, and a \<^verbatim>\<open>null\<close> list gives \<^verbatim>\<open>undefined\<close>.
\<close>

lemma discover_search_example:
  "filteredDiscover latin1ToLowerCase (Some discoverEntries) (js ''fox'')
     = Some [\<lparr>title = js ''FOX staking'', tag = js ''Earn''\<rparr>]
   \<and> filteredDiscover latin1ToLowerCase (Some discoverEntries) (js ''WALLET'')
     = Some [\<lparr>title = 201 # js ''CLAIR mobile app'', tag = js ''Wallet''\<rparr>]
   \<and> filteredDiscover latin1ToLowerCase (Some discoverEntries) (233 # js ''clair'')
     = Some [\<lparr>title = 201 # js ''CLAIR mobile app'', tag = js ''Wallet''\<rparr>]
   \<and> filteredDiscover latin1ToLowerCase (Some discoverEntries) [] = Some discoverEntries
   \<and> filteredDiscover latin1ToLowerCase (None :: discover_data list option) (js ''fox'') = None"
  by (simp add: filteredDiscover_def discoverEntries_def discoverMatches_def
      latin1ToLowerCase_def lowerUnit_def js_def)

text \<open>
  C1 as stated fails for the wallet wrapper (and, by the same code, for the protocol
  wrapper): the wrapper matches on the name, which is the title of the card, and on
  nothing else.  A wallet named Ledger that carries the tag Hardware is dropped by the
  search string \<open>hard\<close>, although its tag contains it.
\<close>

theorem wallet_search_ignores_tag:
  "filteredItems (WalletSearchWrapper_handleSearch latin1ToLowerCase [ledgerWallet] (js ''hard'')
       (WalletSearchWrapper_init [ledgerWallet])) = []
   \<and> titleOrTagMatches latin1ToLowerCase (js ''hard'') ledgerWallet
   \<and> filteredItems (ProtocolSearchWrapper_handleSearch latin1ToLowerCase [ledgerWallet] (js ''hard'')
       (ProtocolSearchWrapper_init [ledgerWallet])) = []
   \<and> filteredItems (WalletSearchWrapper_handleSearch latin1ToLowerCase [ledgerWallet] (js ''LED'')
       (WalletSearchWrapper_init [ledgerWallet])) = [ledgerWallet]"
  by (simp add: WalletSearchWrapper_handleSearch_def WalletSearchWrapper_init_def
      ProtocolSearchWrapper_handleSearch_def ProtocolSearchWrapper_init_def
      nameMatches_def titleOrTagMatches_def ledgerWallet_def latin1ToLowerCase_def
      lowerUnit_def js_def)

text \<open>
  C10.  In both wrappers, in every state, the featured and the non-featured list
  partition the filtered list: as multisets they add up to it, an item is in the featured
  list exactly when it is in the filtered list with \<^verbatim>\<open>isFeatured\<close> set, in the other list
  exactly when it is in the filtered list with the flag unset, and no item is in both.
  After a search the two lists together hold each matching item as often as the input
  does.
\<close>

theorem featured_lists_partition:
  "mset (featuredProtocols st) + mset (nonFeaturedProtocols st) = mset (filteredItems st)
   \<and> set (featuredProtocols st) = {x. x \<in> set (filteredItems st) \<and> isFeatured x}
   \<and> set (nonFeaturedProtocols st) = {x. x \<in> set (filteredItems st) \<and> \<not> isFeatured x}
   \<and> set (featuredProtocols st) \<inter> set (nonFeaturedProtocols st) = {}
   \<and> mset (featuredWallets st') + mset (nonFeaturedWallets st') = mset (filteredItems st')
   \<and> set (featuredWallets st') = {x. x \<in> set (filteredItems st') \<and> isFeatured x}
   \<and> set (nonFeaturedWallets st') = {x. x \<in> set (filteredItems st') \<and> \<not> isFeatured x}
   \<and> set (featuredWallets st') \<inter> set (nonFeaturedWallets st') = {}
   \<and> mset (featuredProtocols (ProtocolSearchWrapper_handleSearch toLowerCase protocols q st))
       + mset (nonFeaturedProtocols (ProtocolSearchWrapper_handleSearch toLowerCase protocols q st))
       = mset (filter (nameMatches toLowerCase q) protocols)
   \<and> mset (featuredWallets (WalletSearchWrapper_handleSearch toLowerCase wallets q st'))
       + mset (nonFeaturedWallets (WalletSearchWrapper_handleSearch toLowerCase wallets q st'))
       = mset (filter (nameMatches toLowerCase q) wallets)"
proof -
  have part: "mset (filter (\<lambda>x. isFeatured x) xs) + mset (filter (\<lambda>x. \<not> isFeatured x) xs) = mset xs"
    for xs :: "'z supported_data_scheme list"
    by (induction xs) auto
  show ?thesis
    unfolding featuredProtocols_def nonFeaturedProtocols_def featuredWallets_def
      nonFeaturedWallets_def ProtocolSearchWrapper_handleSearch_def
      WalletSearchWrapper_handleSearch_def
    by (simp add: part del: filter_filter mset_filter) auto
qed


section \<open>ResourceGrid: results\<close>

lemma ResourceGrid_not_loading:
  "isLoadingProp \<noteq> Some True \<Longrightarrow> withDefault isLoadingProp False = False"
  by (cases isLoadingProp) (auto simp: withDefault_def)

text \<open>
  C6.  With \<^verbatim>\<open>isLoading\<close> false (omitted or passed as false): for \<^verbatim>\<open>items\<close> undefined, null
  or the empty array the grid shows the configured empty-state message, which is
  \<open>No items available yet.\<close> when none is passed, and no card; for a non-empty array it
  shows no message and one card per item, the card at position \<open>i\<close> being
  \<open>renderItem (items[i], i)\<close>.
\<close>

theorem ResourceGrid_empty_or_cards:
  assumes "isLoadingProp \<noteq> Some True"
  shows "(items = Undefined \<or> items = Null \<or> items = Value [] \<longrightarrow>
            shownMessage (ResourceGrid items renderItem isLoadingProp emptyMessageProp classNameProp)
              = Some (case emptyMessageProp of None \<Rightarrow> ''No items available yet.'' | Some m \<Rightarrow> m)
          \<and> cards (ResourceGrid items renderItem isLoadingProp emptyMessageProp classNameProp) = [])
       \<and> (\<forall>xs. items = Value xs \<and> xs \<noteq> [] \<longrightarrow>
            shownMessage (ResourceGrid items renderItem isLoadingProp emptyMessageProp classNameProp)
              = None
          \<and> length (cards (ResourceGrid items renderItem isLoadingProp emptyMessageProp classNameProp))
              = length xs
          \<and> (\<forall>i < length xs.
                cards (ResourceGrid items renderItem isLoadingProp emptyMessageProp classNameProp) ! i
                  = renderItem (xs ! i) i))"
  using ResourceGrid_not_loading [OF assms]
  by (auto simp: ResourceGrid_def Let_def cards_def shownMessage_def withDefault_def
      split: option.splits)

theorem ResourceGrid_empty_or_cards_witness:
  "(None :: bool option) \<noteq> Some True
   \<and> shownMessage (ResourceGrid (Value ([] :: string list)) (\<lambda>item index. (item, index)) None None None)
       = Some ''No items available yet.''
   \<and> cards (ResourceGrid (Value ([] :: string list)) (\<lambda>item index. (item, index)) None None None) = []
   \<and> shownMessage (ResourceGrid (Value [''a'', ''b'']) (\<lambda>item index. (item, index)) None None None)
       = None
   \<and> length (cards (ResourceGrid (Value [''a'', ''b'']) (\<lambda>item index. (item, index)) None None None))
       = 2
   \<and> cards (ResourceGrid (Value [''a'', ''b'']) (\<lambda>item index. (item, index)) None None None) ! 1
       = (''b'', 1)"
proof -
  have h: "(None :: bool option) \<noteq> Some True" by simp
  note e = ResourceGrid_empty_or_cards [OF h, of "Value ([] :: string list)"
      "\<lambda>item index. (item, index)" None None]
  note c = ResourceGrid_empty_or_cards [OF h, of "Value [''a'', ''b'']"
      "\<lambda>item index. (item, index)" None None]
  from e have e': "shownMessage (ResourceGrid (Value ([] :: string list)) (\<lambda>item index. (item, index)) None None None)
       = Some ''No items available yet.''
     \<and> cards (ResourceGrid (Value ([] :: string list)) (\<lambda>item index. (item, index)) None None None) = []"
    by simp
  from c have c': "shownMessage (ResourceGrid (Value [''a'', ''b'']) (\<lambda>item index. (item, index)) None None None)
       = None
     \<and> length (cards (ResourceGrid (Value [''a'', ''b'']) (\<lambda>item index. (item, index)) None None None))
       = 2
     \<and> (\<forall>i < length [''a'', ''b''].
          cards (ResourceGrid (Value [''a'', ''b'']) (\<lambda>item index. (item, index)) None None None) ! i
            = ([''a'', ''b''] ! i, i))"
    by simp
  from c' have "cards (ResourceGrid (Value [''a'', ''b'']) (\<lambda>item index. (item, index)) None None None) ! 1
       = ([''a'', ''b''] ! 1, 1)"
    by (metis One_nat_def length_Cons lessI list.size(3))
  with h e' c' show ?thesis by simp
qed

section \<open>FAQ scroll-spy: results\<close>

lemma pickCloser_cases:
  "pickCloser a x = (if \<bar>snd x - 160\<bar> < \<bar>snd a - 160\<bar> then x else a)"
  by (simp add: pickCloser_def Let_def)

lemma foldl_pickCloser_split:
  "\<exists>pre post. a # xs = pre @ foldl pickCloser a xs # post
     \<and> (\<forall>p \<in> set pre. \<bar>snd (foldl pickCloser a xs) - 160\<bar> < \<bar>snd p - 160\<bar>)
     \<and> (\<forall>p \<in> set post. \<bar>snd (foldl pickCloser a xs) - 160\<bar> \<le> \<bar>snd p - 160\<bar>)"
proof (induction xs arbitrary: a)
  case Nil
  have "[a] = [] @ foldl pickCloser a [] # []" by simp
  then show ?case by fastforce
next
  case (Cons x xs)
  let ?d = "\<lambda>p :: section_position. \<bar>snd p - 160\<bar>"
  show ?case
  proof (cases "?d x < ?d a")
    case True
    then have step: "foldl pickCloser a (x # xs) = foldl pickCloser x xs"
      by (simp add: pickCloser_cases)
    let ?r = "foldl pickCloser x xs"
    from Cons.IH [of x] obtain pre post where
      eq: "x # xs = pre @ ?r # post"
      and before: "\<forall>p \<in> set pre. ?d ?r < ?d p"
      and after: "\<forall>p \<in> set post. ?d ?r \<le> ?d p"
      by blast
    have "x \<in> set (pre @ ?r # post)" using eq by (metis list.set_intros(1))
    with before after have "?d ?r \<le> ?d x" by fastforce
    with True have "?d ?r < ?d a" by linarith
    with before have before': "\<forall>p \<in> set (a # pre). ?d ?r < ?d p" by simp
    from eq have "a # x # xs = (a # pre) @ ?r # post" by simp
    with before' after show ?thesis unfolding step by blast
  next
    case False
    then have step: "foldl pickCloser a (x # xs) = foldl pickCloser a xs"
      by (simp add: pickCloser_cases)
    let ?r = "foldl pickCloser a xs"
    from Cons.IH [of a] obtain pre post where
      eq: "a # xs = pre @ ?r # post"
      and before: "\<forall>p \<in> set pre. ?d ?r < ?d p"
      and after: "\<forall>p \<in> set post. ?d ?r \<le> ?d p"
      by blast
    show ?thesis
    proof (cases pre)
      case Nil
      from eq have "a # xs = ?r # post" unfolding Nil by (simp only: append_Nil)
      then have r: "?r = a" and post: "post = xs" by (metis list.inject)+
      from False r have "?d ?r \<le> ?d x" by simp
      with after post have "\<forall>p \<in> set (x # xs). ?d ?r \<le> ?d p" by simp
      moreover have "a # x # xs = [] @ ?r # (x # xs)" using r by simp
      ultimately show ?thesis unfolding step by (metis empty_iff empty_set)
    next
      case (Cons b pre')
      from eq have "a # xs = b # (pre' @ ?r # post)" unfolding Cons by (simp only: append_Cons)
      then have b: "b = a" and xs: "xs = pre' @ ?r # post" by (metis list.inject)+
      from before Cons b have "?d ?r < ?d a" by simp
      with False have "?d ?r < ?d x" by linarith
      with before Cons b have "\<forall>p \<in> set (a # x # pre'). ?d ?r < ?d p" by simp
      moreover from xs have "a # x # xs = (a # x # pre') @ ?r # post" by simp
      ultimately show ?thesis using after unfolding step by blast
    qed
  qed
qed

lemma closestSection_split:
  assumes "positions \<noteq> []"
  shows "\<exists>pre post. positions = pre @ closestSection positions # post
     \<and> (\<forall>p \<in> set pre. \<bar>snd (closestSection positions) - 160\<bar> < \<bar>snd p - 160\<bar>)
     \<and> (\<forall>p \<in> set post. \<bar>snd (closestSection positions) - 160\<bar> \<le> \<bar>snd p - 160\<bar>)"
proof -
  from assms obtain first rest where ps: "positions = first # rest" by (cases positions) auto
  have "closestSection positions = foldl pickCloser first rest"
    by (simp add: closestSection_def ps pickCloser_cases)
  with foldl_pickCloser_split [of first rest] ps show ?thesis by simp
qed

lemma handleScroll_schedules:
  "\<not> isManualScrolling st \<Longrightarrow> nextFrameId st \<in> set (pendingFrames (handleScroll st))"
  by (simp add: handleScroll_def Let_def)

text \<open>
  C7.  For a non-empty table of section headings, a scroll event outside manual scrolling
  requests an animation frame, and when that frame runs the active section becomes the
  title of a measured position whose distance \<open>|top - 160|\<close> is minimal: every position
  before it in iteration order is strictly farther from the offset, every position after it
  is at least as far.
\<close>

theorem scroll_spy_selects_closest:
  assumes "refs \<noteq> []" and "\<not> isManualScrolling st"
  shows "\<exists>pre sectionTitle top post.
           sectionPositions refs = pre @ (sectionTitle, top) # post
         \<and> activeSection (animationFrame (nextFrameId st) refs (handleScroll st)) = sectionTitle
         \<and> (\<forall>p \<in> set pre. \<bar>top - 160\<bar> < \<bar>snd p - 160\<bar>)
         \<and> (\<forall>p \<in> set post. \<bar>top - 160\<bar> \<le> \<bar>snd p - 160\<bar>)"
proof -
  from assms(1) have "sectionPositions refs \<noteq> []" by (simp add: sectionPositions_def)
  from closestSection_split [OF this] obtain pre post where
    eq: "sectionPositions refs = pre @ closestSection (sectionPositions refs) # post"
    and before: "\<forall>p \<in> set pre. \<bar>snd (closestSection (sectionPositions refs)) - 160\<bar> < \<bar>snd p - 160\<bar>"
    and after: "\<forall>p \<in> set post. \<bar>snd (closestSection (sectionPositions refs)) - 160\<bar> \<le> \<bar>snd p - 160\<bar>"
    by blast
  obtain sectionTitle top where c: "closestSection (sectionPositions refs) = (sectionTitle, top)"
    by (cases "closestSection (sectionPositions refs)") auto
  have "activeSection (animationFrame (nextFrameId st) refs (handleScroll st)) = sectionTitle"
    using handleScroll_schedules [OF assms(2)] c by (simp add: animationFrame_def)
  with eq before after c show ?thesis by auto
qed

theorem scroll_spy_selects_closest_witness:
  "faqRefs \<noteq> [] \<and> \<not> isManualScrolling FAQContent_init
   \<and> (\<exists>pre sectionTitle top post.
           sectionPositions faqRefs = pre @ (sectionTitle, top) # post
         \<and> activeSection (animationFrame (nextFrameId FAQContent_init) faqRefs
               (handleScroll FAQContent_init)) = sectionTitle
         \<and> (\<forall>p \<in> set pre. \<bar>top - 160\<bar> < \<bar>snd p - 160\<bar>)
         \<and> (\<forall>p \<in> set post. \<bar>top - 160\<bar> \<le> \<bar>snd p - 160\<bar>))
   \<and> activeSection (animationFrame (nextFrameId FAQContent_init) faqRefs
         (handleScroll FAQContent_init)) = ''Wallets''"
proof -
  have h1: "faqRefs \<noteq> []" by (simp add: faqRefs_def)
  have h2: "\<not> isManualScrolling FAQContent_init" by (simp add: FAQContent_init_def)
  have "activeSection (animationFrame (nextFrameId FAQContent_init) faqRefs
         (handleScroll FAQContent_init)) = ''Wallets''"
    by (simp add: animationFrame_def handleScroll_def FAQContent_init_def Let_def faqRefs_def
        sectionPositions_def closestSection_def pickCloser_def)
  with h1 h2 scroll_spy_selects_closest [OF h1 h2] show ?thesis by simp
qed

lemma handleScroll_manual: "isManualScrolling st \<Longrightarrow> handleScroll st = st"
  by (simp add: handleScroll_def)

lemma animationFrame_none_pending: "pendingFrames st = [] \<Longrightarrow> animationFrame handle refs st = st"
  by (simp add: animationFrame_def)

lemma faq_run_scrolls_manual:
  "isManualScrolling st \<Longrightarrow> \<forall>e \<in> set events. e = Scroll \<Longrightarrow> faq_run st events = st"
  unfolding faq_run_def by (induction events) (simp_all add: handleScroll_manual)

lemma faq_run_scrolls_frames_manual:
  assumes "isManualScrolling st" and "pendingFrames st = []"
    and "\<forall>e \<in> set events. isScrollOrFrame e"
  shows "faq_run st events = st"
  using assms(3) unfolding faq_run_def
proof (induction events)
  case Nil
  show ?case by simp
next
  case (Cons e events)
  then have "isScrollOrFrame e" by simp
  then have "faq_step st e = st"
    using assms(1,2)
    by (cases e) (simp_all add: isScrollOrFrame_def handleScroll_manual animationFrame_none_pending)
  with Cons show ?case by simp
qed

lemma scrollToSection_found:
  "map_of refs sectionTitle = Some (Some element) \<Longrightarrow>
     scrollToSection sectionTitle refs scrollY st =
       st\<lparr>isManualScrolling := True, activeSection := sectionTitle,
          scrollTarget := Some (rectTop element + scrollY - 160),
          pendingTimeouts := pendingTimeouts st + 1\<rparr>"
  by (simp add: scrollToSection_def)

text \<open>
  What the manual-scrolling flag does achieve.  A click on the sidebar link of a section
  whose element is registered sets the active section to that section and raises the
  flag.  While the flag is raised the scroll handler returns the state as it is, so any
  number of scroll events after the click leaves the whole state unchanged; when no
  animation frame was pending at the click, the same holds for scroll events interleaved
  with animation frames.  The flag falls when the timeout set by the click fires.
\<close>

theorem click_suppresses_scroll_updates:
  assumes "map_of refs sectionTitle = Some (Some element)"
  shows "activeSection (scrollToSection sectionTitle refs scrollY st) = sectionTitle
       \<and> isManualScrolling (scrollToSection sectionTitle refs scrollY st)
       \<and> (\<forall>s. isManualScrolling s \<longrightarrow> handleScroll s = s)
       \<and> (\<forall>events. (\<forall>e \<in> set events. e = Scroll) \<longrightarrow>
             faq_run (scrollToSection sectionTitle refs scrollY st) events
               = scrollToSection sectionTitle refs scrollY st)
       \<and> (pendingFrames st = [] \<longrightarrow>
            (\<forall>events. (\<forall>e \<in> set events. isScrollOrFrame e) \<longrightarrow>
               faq_run (scrollToSection sectionTitle refs scrollY st) events
                 = scrollToSection sectionTitle refs scrollY st))
       \<and> \<not> isManualScrolling (timeoutFires (scrollToSection sectionTitle refs scrollY st))"
proof -
  let ?c = "scrollToSection sectionTitle refs scrollY st"
  note c = scrollToSection_found [OF assms, of scrollY st]
  have a: "activeSection ?c = sectionTitle" and m: "isManualScrolling ?c"
    by (simp_all add: c)
  have p: "pendingFrames ?c = pendingFrames st" by (simp add: c)
  have t: "\<not> isManualScrolling (timeoutFires ?c)" by (simp add: c timeoutFires_def)
  have s: "\<forall>events. (\<forall>e \<in> set events. e = Scroll) \<longrightarrow> faq_run ?c events = ?c"
    using faq_run_scrolls_manual [OF m] by blast
  have f: "pendingFrames st = [] \<longrightarrow>
      (\<forall>events. (\<forall>e \<in> set events. isScrollOrFrame e) \<longrightarrow> faq_run ?c events = ?c)"
    using faq_run_scrolls_frames_manual [OF m] p by auto
  from a m s f t show ?thesis by (simp add: handleScroll_manual)
qed

theorem click_suppresses_scroll_updates_witness:
  "map_of faqRefs ''Trading'' = Some (Some \<lparr>rectTop = 220\<rparr>)
   \<and> activeSection (scrollToSection ''Trading'' faqRefs 1000 FAQContent_init) = ''Trading''
   \<and> isManualScrolling (scrollToSection ''Trading'' faqRefs 1000 FAQContent_init)
   \<and> faq_run (scrollToSection ''Trading'' faqRefs 1000 FAQContent_init) [Scroll, Scroll]
       = scrollToSection ''Trading'' faqRefs 1000 FAQContent_init
   \<and> pendingFrames FAQContent_init = []
   \<and> faq_run (scrollToSection ''Trading'' faqRefs 1000 FAQContent_init)
         [Scroll, AnimationFrame 1 faqRefs, Scroll]
       = scrollToSection ''Trading'' faqRefs 1000 FAQContent_init
   \<and> \<not> isManualScrolling (timeoutFires (scrollToSection ''Trading'' faqRefs 1000 FAQContent_init))"
proof -
  have h: "map_of faqRefs ''Trading'' = Some (Some \<lparr>rectTop = 220\<rparr>)"
    by (simp add: faqRefs_def)
  have e1: "\<forall>e \<in> set [Scroll, Scroll]. e = Scroll" by simp
  have e2: "\<forall>e \<in> set [Scroll, AnimationFrame 1 faqRefs, Scroll]. isScrollOrFrame e"
    by (simp add: isScrollOrFrame_def)
  have p: "pendingFrames FAQContent_init = []" by (simp add: FAQContent_init_def)
  note t = click_suppresses_scroll_updates [OF h, of 1000 FAQContent_init]
  from t e1 have r1: "faq_run (scrollToSection ''Trading'' faqRefs 1000 FAQContent_init) [Scroll, Scroll]
       = scrollToSection ''Trading'' faqRefs 1000 FAQContent_init"
    by blast
  from t p e2 have r2: "faq_run (scrollToSection ''Trading'' faqRefs 1000 FAQContent_init)
         [Scroll, AnimationFrame 1 faqRefs, Scroll]
       = scrollToSection ''Trading'' faqRefs 1000 FAQContent_init"
    by blast
  from t h e1 e2 p r1 r2 show ?thesis by blast
qed

text \<open>
  C8.  The code does not keep the active section fixed from the click until the flag is
  reset.  The flag is read by the scroll handler only: the animation-frame callback, which
  is where a scroll event updates the active section, does not read it, and
  \<^verbatim>\<open>scrollToSection\<close> does not cancel a requested frame.  So the update of a scroll event
  dispatched just before the click lands after the click, with the flag raised.  Below,
  the page has mounted and its first frame has run; a scroll event requests frame 2; the
  user clicks Trading, which becomes active and raises the flag; frame 2 runs and makes
  Wallets active, the flag still raised and the timeout still to fire.
\<close>

theorem scroll_update_lands_during_manual_scrolling:
  "activeSection (faq_run FAQContent_mount
       [AnimationFrame 1 faqRefs, Scroll, Click ''Trading'' faqRefs 1000]) = ''Trading''
   \<and> isManualScrolling (faq_run FAQContent_mount
       [AnimationFrame 1 faqRefs, Scroll, Click ''Trading'' faqRefs 1000])
   \<and> pendingFrames (faq_run FAQContent_mount
       [AnimationFrame 1 faqRefs, Scroll, Click ''Trading'' faqRefs 1000]) = [2]
   \<and> activeSection (faq_run FAQContent_mount
       [AnimationFrame 1 faqRefs, Scroll, Click ''Trading'' faqRefs 1000,
        AnimationFrame 2 faqRefs]) = ''Wallets''
   \<and> isManualScrolling (faq_run FAQContent_mount
       [AnimationFrame 1 faqRefs, Scroll, Click ''Trading'' faqRefs 1000,
        AnimationFrame 2 faqRefs])
   \<and> pendingTimeouts (faq_run FAQContent_mount
       [AnimationFrame 1 faqRefs, Scroll, Click ''Trading'' faqRefs 1000,
        AnimationFrame 2 faqRefs]) = 1"
  by (simp add: faq_run_def FAQContent_mount_def FAQContent_init_def handleScroll_def Let_def
      scrollToSection_def animationFrame_def cancelAnimationFrame_def faqRefs_def
      sectionPositions_def closestSection_def pickCloser_def)


section \<open>CMS fetch utilities: results\<close>

lemmas utility_defs =
  fetchAllProtocols_def fetchAllChains_def fetchAllWallets_def fetchDiscoverBySlug_def
  fetchFaqData_def fetchWithErrorHandling_def failed_def succeeded_def Let_def

lemma runUtility_requests: "requests (runUtility env u net) = [utilityRequest env u]"
  by (cases u) (simp_all add: utility_defs split: sum.splits)

lemma runUtility_fulfils: "\<exists>v. returned (runUtility env u net) = Inr v"
  by (cases u) (simp_all add: utility_defs split: sum.splits)

lemma runUtility_network_error:
  "net (utilityRequest env u) = Inl error \<Longrightarrow>
     returned (runUtility env u net) = Inr JNull \<and> length (consoleErrors (runUtility env u net)) = 1"
  by (cases u) (simp_all add: utility_defs)

lemma runUtility_not_ok:
  "net (utilityRequest env u) = Inr response \<Longrightarrow> \<not> ok response \<Longrightarrow>
     returned (runUtility env u net) = Inr JNull \<and> length (consoleErrors (runUtility env u net)) = 1"
  by (cases u) (simp_all add: utility_defs)

lemma runUtility_json_throws:
  "net (utilityRequest env u) = Inr response \<Longrightarrow> ok response \<Longrightarrow> json response = Inl error \<Longrightarrow>
     returned (runUtility env u net) = Inr JNull \<and> length (consoleErrors (runUtility env u net)) = 1"
  by (cases u) (simp_all add: utility_defs)

lemma runUtility_data_throws:
  "net (utilityRequest env u) = Inr response \<Longrightarrow> ok response \<Longrightarrow> json response = Inr data \<Longrightarrow>
   getData data = Inl error \<Longrightarrow>
     returned (runUtility env u net) = Inr JNull \<and> length (consoleErrors (runUtility env u net)) = 1"
  by (cases u) (simp_all add: utility_defs)

lemma runUtility_ok:
  "net (utilityRequest env u) = Inr response \<Longrightarrow> ok response \<Longrightarrow> json response = Inr data \<Longrightarrow>
   getData data = Inr d \<Longrightarrow>
     returned (runUtility env u net) = Inr (payload u d) \<and> consoleErrors (runUtility env u net) = []"
  by (cases u) (simp_all add: utility_defs)

text \<open>
  What the six utilities do, whatever the network answers.  Each sends exactly one
  request and its promise fulfils.  On a rejected \<^verbatim>\<open>fetch\<close>, on a response that is not OK,
  on a body that fails to parse, and on a body that parses to \<^verbatim>\<open>null\<close>, it logs one console
  error and returns \<^verbatim>\<open>null\<close>.  On an OK response whose body parses to an object it logs
  nothing and returns, with \<open>d\<close> the \<^verbatim>\<open>data\<close> property (\<^verbatim>\<open>undefined\<close> when absent): \<open>d\<close> if
  truthy and else \<^verbatim>\<open>null\<close> for \<^verbatim>\<open>fetchAllProtocols\<close>, \<^verbatim>\<open>fetchAllChains\<close>,
  \<^verbatim>\<open>fetchAllWallets\<close> and \<^verbatim>\<open>fetchFaqData\<close>; \<^verbatim>\<open>d?.[0]\<close> if truthy and else \<^verbatim>\<open>null\<close> for
  \<^verbatim>\<open>fetchDiscoverBySlug\<close>; and \<open>d\<close> itself for \<^verbatim>\<open>fetchWithErrorHandling\<close>.
\<close>

theorem fetch_utilities_settle:
  "requests (runUtility env u net) = [utilityRequest env u]
   \<and> (\<exists>v. returned (runUtility env u net) = Inr v)
   \<and> (\<forall>error. net (utilityRequest env u) = Inl error \<longrightarrow>
         returned (runUtility env u net) = Inr JNull
       \<and> length (consoleErrors (runUtility env u net)) = 1)
   \<and> (\<forall>response. net (utilityRequest env u) = Inr response \<and> \<not> ok response \<longrightarrow>
         returned (runUtility env u net) = Inr JNull
       \<and> length (consoleErrors (runUtility env u net)) = 1)
   \<and> (\<forall>response error. net (utilityRequest env u) = Inr response \<and> ok response
           \<and> json response = Inl error \<longrightarrow>
         returned (runUtility env u net) = Inr JNull
       \<and> length (consoleErrors (runUtility env u net)) = 1)
   \<and> (\<forall>response. net (utilityRequest env u) = Inr response \<and> ok response
           \<and> json response = Inr JNull \<longrightarrow>
         returned (runUtility env u net) = Inr JNull
       \<and> length (consoleErrors (runUtility env u net)) = 1)
   \<and> (\<forall>response props. net (utilityRequest env u) = Inr response \<and> ok response
           \<and> json response = Inr (JObj props) \<longrightarrow>
         consoleErrors (runUtility env u net) = []
       \<and> returned (runUtility env u net) =
           Inr (let d = (case map_of props ''data'' of None \<Rightarrow> JUndefined | Some v \<Rightarrow> v)
                in case u of
                     FetchDiscoverBySlug slugArg \<Rightarrow>
                       if truthy (optionalFirst d) then optionalFirst d else JNull
                   | FetchWithErrorHandling endpoint queryParams errorContext \<Rightarrow> d
                   | _ \<Rightarrow> if truthy d then d else JNull))"
proof -
  have obj: "returned (runUtility env u net) =
           Inr (let d = (case map_of props ''data'' of None \<Rightarrow> JUndefined | Some v \<Rightarrow> v)
                in case u of
                     FetchDiscoverBySlug slugArg \<Rightarrow>
                       if truthy (optionalFirst d) then optionalFirst d else JNull
                   | FetchWithErrorHandling endpoint queryParams errorContext \<Rightarrow> d
                   | _ \<Rightarrow> if truthy d then d else JNull)
         \<and> consoleErrors (runUtility env u net) = []"
    if "net (utilityRequest env u) = Inr response" "ok response" "json response = Inr (JObj props)"
    for response props
  proof -
    have "getData (JObj props) =
        Inr (case map_of props ''data'' of None \<Rightarrow> JUndefined | Some v \<Rightarrow> v)"
      by simp
    from runUtility_ok [of net env u response "JObj props", OF that this] show ?thesis
      by (cases u) (simp_all add: orNull_def Let_def)
  qed
  have null: "returned (runUtility env u net) = Inr JNull
       \<and> length (consoleErrors (runUtility env u net)) = 1"
    if "net (utilityRequest env u) = Inr response" "ok response" "json response = Inr JNull"
    for response
    using runUtility_data_throws [of net env u response JNull, OF that] by simp
  show ?thesis
    using runUtility_requests [of env u net] runUtility_fulfils [of env u net]
      runUtility_network_error [of net env u] runUtility_not_ok [of net env u]
      runUtility_json_throws [of net env u] null obj
    by blast
qed

theorem fetch_utilities_settle_witness:
  "returned (runUtility exampleEnv FetchAllProtocols offlineNetwork) = Inr JNull
   \<and> length (consoleErrors (runUtility exampleEnv FetchAllProtocols offlineNetwork)) = 1
   \<and> returned (runUtility exampleEnv FetchAllChains notFoundNetwork) = Inr JNull
   \<and> returned (runUtility exampleEnv FetchFaqData malformedNetwork) = Inr JNull
   \<and> returned (runUtility exampleEnv FetchAllWallets nullBodyNetwork) = Inr JNull
   \<and> returned (runUtility exampleEnv FetchAllWallets emptyObjectNetwork) = Inr JNull
   \<and> returned (runUtility exampleEnv (FetchDiscoverBySlug ''ledger'') listNetwork)
       = Inr (JObj [(''slug'', JStr ''ledger'')])
   \<and> returned (runUtility exampleEnv (FetchWithErrorHandling ''products'' ''populate=*'' ''products'')
         listNetwork)
       = Inr (JArr [JObj [(''slug'', JStr ''ledger'')]])"
proof -
  have 1: "returned (runUtility exampleEnv FetchAllProtocols offlineNetwork) = Inr JNull
      \<and> length (consoleErrors (runUtility exampleEnv FetchAllProtocols offlineNetwork)) = 1"
    using fetch_utilities_settle [of exampleEnv FetchAllProtocols offlineNetwork]
    by (simp add: offlineNetwork_def)
  have 2: "returned (runUtility exampleEnv FetchAllChains notFoundNetwork) = Inr JNull"
    using fetch_utilities_settle [of exampleEnv FetchAllChains notFoundNetwork]
    by (simp add: notFoundNetwork_def)
  have 3: "returned (runUtility exampleEnv FetchFaqData malformedNetwork) = Inr JNull"
    using fetch_utilities_settle [of exampleEnv FetchFaqData malformedNetwork]
    by (simp add: malformedNetwork_def)
  have 4: "returned (runUtility exampleEnv FetchAllWallets nullBodyNetwork) = Inr JNull"
    using fetch_utilities_settle [of exampleEnv FetchAllWallets nullBodyNetwork]
    by (simp add: nullBodyNetwork_def)
  have 5: "returned (runUtility exampleEnv FetchAllWallets emptyObjectNetwork) = Inr JNull"
    using fetch_utilities_settle [of exampleEnv FetchAllWallets emptyObjectNetwork]
    by (simp add: emptyObjectNetwork_def)
  have 6: "returned (runUtility exampleEnv (FetchDiscoverBySlug ''ledger'') listNetwork)
       = Inr (JObj [(''slug'', JStr ''ledger'')])"
    using fetch_utilities_settle [of exampleEnv "FetchDiscoverBySlug ''ledger''" listNetwork]
    by (simp add: listNetwork_def)
  have 7: "returned (runUtility exampleEnv (FetchWithErrorHandling ''products'' ''populate=*'' ''products'')
         listNetwork)
       = Inr (JArr [JObj [(''slug'', JStr ''ledger'')]])"
    using fetch_utilities_settle [of exampleEnv
        "FetchWithErrorHandling ''products'' ''populate=*'' ''products''" listNetwork]
    by (simp add: listNetwork_def)
  from 1 2 3 4 5 6 7 show ?thesis by blast
qed

text \<open>
  C4.  \<^verbatim>\<open>fetchWithErrorHandling\<close> does not return \<^verbatim>\<open>null\<close> when the \<^verbatim>\<open>data\<close> field is
  absent.  Its last statement is \<^verbatim>\<open>return data.data\<close>, without the \<^verbatim>\<open>|| null\<close> the other
  five utilities end with, although it is declared to return \<^verbatim>\<open>Promise<T | null>\<close>.  On
  an OK response whose body is the empty object it returns \<^verbatim>\<open>undefined\<close>;
  \<^verbatim>\<open>fetchAllProtocols\<close> returns \<^verbatim>\<open>null\<close> on the same response.
\<close>

theorem fetchWithErrorHandling_returns_undefined:
  "returned (fetchWithErrorHandling exampleEnv ''products'' ''populate=*'' ''products''
       emptyObjectNetwork) = Inr JUndefined
   \<and> returned (fetchWithErrorHandling exampleEnv ''products'' ''populate=*'' ''products''
       emptyObjectNetwork) \<noteq> Inr JNull
   \<and> returned (fetchAllProtocols exampleEnv emptyObjectNetwork) = Inr JNull"
  by (simp add: fetchWithErrorHandling_def fetchAllProtocols_def emptyObjectNetwork_def
      succeeded_def Let_def orNull_def)

lemma utilityRequest_isRead: "isRead (utilityRequest env u)"
  by (cases u)
     (simp_all add: isRead_def methodOverride_def requestBody_def requestMethod_def apiConfig_def
        fetchAllProtocols_request_def fetchAllChains_request_def fetchAllWallets_request_def
        fetchDiscoverBySlug_request_def fetchFaqData_request_def
        fetchWithErrorHandling_request_def)

lemma pageRequest_isRead: "isRead (pageRequest env site)"
  by (cases site)
     (simp_all add: isRead_def methodOverride_def requestBody_def requestMethod_def
        bearerOnly_def)

text \<open>
  C9.  Every request sent by a fetch utility, for every argument and every answer of the
  network, and every request sent by a page or a metadata function, carries no method
  override and no body, so its method is \<^verbatim>\<open>GET\<close>.
\<close>

theorem every_request_is_a_read:
  "(\<forall>req \<in> set (requests (runUtility env u net)).
       methodOverride req = None \<and> requestBody req = None \<and> requestMethod req = ''GET'')
   \<and> methodOverride (pageRequest env site) = None
   \<and> requestBody (pageRequest env site) = None
   \<and> requestMethod (pageRequest env site) = ''GET''"
  using utilityRequest_isRead [of env u] pageRequest_isRead [of env site]
  by (simp add: runUtility_requests isRead_def)

theorem every_request_is_a_read_witness:
  "fetchFaqData_request exampleEnv \<in> set (requests (runUtility exampleEnv FetchFaqData listNetwork))
   \<and> methodOverride (fetchFaqData_request exampleEnv) = None
   \<and> requestBody (fetchFaqData_request exampleEnv) = None
   \<and> requestMethod (fetchFaqData_request exampleEnv) = ''GET''
   \<and> requestMethod (pageRequest exampleEnv GhostBlog) = ''GET''"
proof -
  have m: "fetchFaqData_request exampleEnv
      \<in> set (requests (runUtility exampleEnv FetchFaqData listNetwork))"
    by (simp add: fetchFaqData_def listNetwork_def succeeded_def Let_def)
  with every_request_is_a_read [of exampleEnv FetchFaqData listNetwork GhostBlog]
  show ?thesis by blast
qed

section \<open>Detail pages: results\<close>

lemma find_Some_first:
  "find P xs = Some x \<Longrightarrow> \<exists>pre post. xs = pre @ x # post \<and> P x \<and> (\<forall>y \<in> set pre. \<not> P y)"
proof (induction xs)
  case Nil
  then show ?case by simp
next
  case (Cons a xs)
  show ?case
  proof (cases "P a")
    case True
    with Cons.prems have "a = x" by simp
    with True have "a # xs = [] @ x # xs \<and> P x \<and> (\<forall>y \<in> set []. \<not> P y)" by simp
    then show ?thesis by blast
  next
    case False
    with Cons.prems have "find P xs = Some x" by simp
    from Cons.IH [OF this] obtain pre post where
      "xs = pre @ x # post" "P x" "\<forall>y \<in> set pre. \<not> P y" by blast
    with False have "a # xs = (a # pre) @ x # post \<and> P x \<and> (\<forall>y \<in> set (a # pre). \<not> P y)"
      by simp
    then show ?thesis by blast
  qed
qed

lemma find_Some_member: "find P xs = Some x \<Longrightarrow> P x \<and> x \<in> set xs"
  using find_Some_first [of P xs x] by auto

lemma find_none_matching: "\<forall>p \<in> set xs. \<not> P p \<Longrightarrow> find P xs = None"
  by (simp add: find_None_iff)

lemma find_append_cached:
  "find P cached = Some c \<Longrightarrow> find P (cached @ fetched) = Some c"
  by (induction cached) (auto split: if_splits)


lemma BlogPost_unfold:
  "BlogPost hook s cached =
     (if isLoading (hook (BlogPost_args s cached)) then Skeleton
      else case find (\<lambda>p. slug p = s) (cached @ posts (hook (BlogPost_args s cached))) of
             None \<Rightarrow> NotFoundPage
           | Some p \<Rightarrow> Article p)"
  by (simp add: BlogPost_def Let_def)

lemma NewsroomPostPage_unfold:
  "NewsroomPostPage hook s cached =
     (if isLoading (hook (NewsroomPostPage_args s cached)) then Skeleton
      else case find (\<lambda>p. slug p = s) (cached @ posts (hook (NewsroomPostPage_args s cached))) of
             None \<Rightarrow> NotFoundPage
           | Some p \<Rightarrow> Article p)"
  by (simp add: NewsroomPostPage_def Let_def)

lemma BlogPost_not_found:
  assumes "\<not> isLoading (hook (BlogPost_args s cached))"
    and "\<forall>p \<in> set (cached @ posts (hook (BlogPost_args s cached))). slug p \<noteq> s"
  shows "BlogPost hook s cached = NotFoundPage"
  using assms(1) find_none_matching [of _ "\<lambda>p. slug p = s", OF assms(2)]
  by (simp add: BlogPost_unfold)

lemma BlogPost_article:
  assumes "BlogPost hook s cached = Article p"
  shows "slug p = s \<and> p \<in> set (cached @ posts (hook (BlogPost_args s cached)))"
proof -
  from assms have "find (\<lambda>p. slug p = s) (cached @ posts (hook (BlogPost_args s cached))) = Some p"
    by (simp add: BlogPost_unfold split: if_splits option.splits)
  from find_Some_member [OF this] show ?thesis by simp
qed

lemma NewsroomPostPage_not_found:
  assumes "\<not> isLoading (hook (NewsroomPostPage_args s cached))"
    and "\<forall>p \<in> set (cached @ posts (hook (NewsroomPostPage_args s cached))). slug p \<noteq> s"
  shows "NewsroomPostPage hook s cached = NotFoundPage"
  using assms(1) find_none_matching [of _ "\<lambda>p. slug p = s", OF assms(2)]
  by (simp add: NewsroomPostPage_unfold)

lemma NewsroomPostPage_article:
  assumes "NewsroomPostPage hook s cached = Article p"
  shows "slug p = s \<and> p \<in> set (cached @ posts (hook (NewsroomPostPage_args s cached)))"
proof -
  from assms
  have "find (\<lambda>p. slug p = s) (cached @ posts (hook (NewsroomPostPage_args s cached))) = Some p"
    by (simp add: NewsroomPostPage_unfold split: if_splits option.splits)
  from find_Some_member [OF this] show ?thesis by simp
qed

text \<open>
  What the three hook- and lookup-based detail pages do.  Once the hook reports that
  loading is over, \<^verbatim>\<open>BlogPost\<close> and \<^verbatim>\<open>NewsroomPostPage\<close> come to the not-found transition
  whenever no record with the requested slug is among the cached and the fetched records,
  and \<^verbatim>\<open>ProtocolPage\<close> does whenever the lookup gives \<^verbatim>\<open>null\<close> or \<^verbatim>\<open>undefined\<close>.  An article
  is rendered only from a record that is among them and carries the requested slug, or
  from the record the lookup gave.
\<close>

theorem detail_pages_resolve_to_not_found:
  "(\<not> isLoading (useFetchPosts (BlogPost_args s cachedPosts))
      \<and> (\<forall>p \<in> set (cachedPosts @ posts (useFetchPosts (BlogPost_args s cachedPosts))). slug p \<noteq> s)
     \<longrightarrow> BlogPost useFetchPosts s cachedPosts = NotFoundPage)
   \<and> (\<forall>p. BlogPost useFetchPosts s cachedPosts = Article p \<longrightarrow>
         slug p = s \<and> p \<in> set (cachedPosts @ posts (useFetchPosts (BlogPost_args s cachedPosts))))
   \<and> (\<not> isLoading (useFetchNewsroom (NewsroomPostPage_args s cachedNews))
      \<and> (\<forall>p \<in> set (cachedNews @ posts (useFetchNewsroom (NewsroomPostPage_args s cachedNews))).
            slug p \<noteq> s)
     \<longrightarrow> NewsroomPostPage useFetchNewsroom s cachedNews = NotFoundPage)
   \<and> (\<forall>p. NewsroomPostPage useFetchNewsroom s cachedNews = Article p \<longrightarrow>
         slug p = s
       \<and> p \<in> set (cachedNews @ posts (useFetchNewsroom (NewsroomPostPage_args s cachedNews))))
   \<and> (getSupportedProtocol s = Inr Null \<or> getSupportedProtocol s = Inr Undefined
     \<longrightarrow> ProtocolPage getSupportedProtocol s = Inr NotFoundPage)
   \<and> (\<forall>protocol. ProtocolPage getSupportedProtocol s = Inr (Article protocol) \<longrightarrow>
         getSupportedProtocol s = Inr (Value protocol))"
proof -
  have "getSupportedProtocol s = Inr Null \<or> getSupportedProtocol s = Inr Undefined
     \<longrightarrow> ProtocolPage getSupportedProtocol s = Inr NotFoundPage"
    by (auto simp: ProtocolPage_def)
  moreover have "\<forall>protocol. ProtocolPage getSupportedProtocol s = Inr (Article protocol) \<longrightarrow>
         getSupportedProtocol s = Inr (Value protocol)"
    by (auto simp: ProtocolPage_def split: sum.splits nullable.splits)
  ultimately show ?thesis
    using BlogPost_not_found [of useFetchPosts s cachedPosts]
      BlogPost_article [of useFetchPosts s cachedPosts]
      NewsroomPostPage_not_found [of useFetchNewsroom s cachedNews]
      NewsroomPostPage_article [of useFetchNewsroom s cachedNews]
    by blast
qed

theorem detail_pages_resolve_to_not_found_witness:
  "BlogPost emptyHook ''missing'' [daoPost] = NotFoundPage
   \<and> NewsroomPostPage emptyHook ''missing'' [daoPost] = NotFoundPage
   \<and> ProtocolPage noProtocol ''missing'' = Inr NotFoundPage
   \<and> BlogPost foxHook ''fox-token'' [daoPost] = Article foxPost
   \<and> slug foxPost = ''fox-token''
   \<and> NewsroomPostPage foxHook ''fox-token'' [daoPost] = Article foxPost
   \<and> ProtocolPage oneProtocol ''thorchain'' = Inr (Article thorchain)
   \<and> oneProtocol ''thorchain'' = Inr (Value thorchain)"
proof -
  note e = detail_pages_resolve_to_not_found [of emptyHook "''missing''" "[daoPost]" emptyHook
      "[daoPost]" noProtocol]
  note f = detail_pages_resolve_to_not_found [of foxHook "''fox-token''" "[daoPost]" foxHook
      "[daoPost]" oneProtocol]
  have 1: "BlogPost emptyHook ''missing'' [daoPost] = NotFoundPage
      \<and> NewsroomPostPage emptyHook ''missing'' [daoPost] = NotFoundPage
      \<and> ProtocolPage noProtocol ''missing'' = Inr NotFoundPage"
    using e by (simp add: emptyHook_def daoPost_def noProtocol_def)
  have 2: "BlogPost foxHook ''fox-token'' [daoPost] = Article foxPost"
    by (simp add: BlogPost_def foxHook_def daoPost_def foxPost_def Let_def)
  have 3: "NewsroomPostPage foxHook ''fox-token'' [daoPost] = Article foxPost"
    by (simp add: NewsroomPostPage_def foxHook_def daoPost_def foxPost_def Let_def)
  have 4: "ProtocolPage oneProtocol ''thorchain'' = Inr (Article thorchain)"
    by (simp add: ProtocolPage_def oneProtocol_def)
  note g = detail_pages_resolve_to_not_found [of foxHook "''thorchain''" "[daoPost]" foxHook
      "[daoPost]" oneProtocol]
  from f g 2 3 4 have "slug foxPost = ''fox-token'' \<and> oneProtocol ''thorchain'' = Inr (Value thorchain)"
    by blast
  with 1 2 3 4 show ?thesis by blast
qed

lemma PostPage_never_not_found: "PostPage env net slugParam \<noteq> Inr NotFoundPage"
  by (simp add: PostPage_def split: sum.splits)

text \<open>
  C5.  Not every blog-post detail page comes to the not-found transition.  \<^verbatim>\<open>PostPage\<close>
  has no \<^verbatim>\<open>notFound()\<close> call, where \<^verbatim>\<open>BlogPost\<close>, \<^verbatim>\<open>NewsroomPostPage\<close> and
  \<^verbatim>\<open>ProtocolPage\<close> have one.  For a slug without a post the content API answers with an
  error document: \<^verbatim>\<open>posts\<close> is \<^verbatim>\<open>undefined\<close>, \<^verbatim>\<open>posts[0]\<close> throws, and the page rejects
  with a TypeError.  With an empty list of posts, \<^verbatim>\<open>post\<close> is \<^verbatim>\<open>undefined\<close> and
  \<^verbatim>\<open>post.title\<close> throws.  \<^verbatim>\<open>BlogPost\<close> comes to the not-found transition for the same slug.
\<close>

theorem PostPage_throws_for_missing_record:
  "PostPage exampleEnv ghostMissingNetwork ''missing''
     = Inl (JsError ''Cannot read properties of undefined'')
   \<and> PostPage exampleEnv ghostMissingNetwork ''missing'' \<noteq> Inr NotFoundPage
   \<and> PostPage exampleEnv ghostEmptyNetwork ''missing''
     = Inl (JsError ''Cannot read properties of undefined'')
   \<and> PostPage exampleEnv ghostEmptyNetwork ''missing'' \<noteq> Inr NotFoundPage
   \<and> PostPage exampleEnv ghostFoundNetwork ''hello''
     = Inr (Article (JObj [(''title'', JStr ''Hello'')]))
   \<and> BlogPost emptyHook ''missing'' [] = NotFoundPage"
  by (simp add: PostPage_def getPost_def ghostMissingNetwork_def ghostEmptyNetwork_def
      ghostFoundNetwork_def BlogPost_def emptyHook_def Let_def)




section \<open>Paginated lists: results\<close>

lemmas list_defs =
  list_mount_def list_render_def list_settle_def list_onPageChange_def list_clickNext_def
  list_clickPage_def list_pageCount_def useFetch_requests_def useFetch_def withDefault_def
  pageOfThree_def Let_def

text \<open>
  The handler itself: \<^verbatim>\<open>onPageChange\<close> with selected index \<open>k\<close> sets the page to \<open>k + 1\<close> and
  calls the hook with that page.
\<close>

lemma onPageChange_sets_page:
  "page (NewsroomList_onPageChange k st) = k + 1
   \<and> previousArgs (NewsroomList_onPageChange k st) = Some (NewsroomList_args (k + 1))
   \<and> page (ListOfPosts_onPageChange t k st) = k + 1
   \<and> previousArgs (ListOfPosts_onPageChange t k st) = Some (ListOfPosts_args t (k + 1))"
  by (simp add: NewsroomList_onPageChange_def ListOfPosts_onPageChange_def list_onPageChange_def
      list_render_def Let_def)

text \<open>
  The first click on next works: the page becomes 2, a fetch for page 2 is issued, and the
  skeleton replaces the list, which unmounts the control.
\<close>

lemma first_next_reaches_page_two:
  "page (NewsroomList_after [FetchSettles pageOfThree, ClickNext]) = 2
   \<and> map argPage (fetches (NewsroomList_after [FetchSettles pageOfThree, ClickNext])) = [1, 2]
   \<and> paginatorSelected (NewsroomList_after [FetchSettles pageOfThree, ClickNext]) = None
   \<and> paginatorSelected
        (NewsroomList_after [FetchSettles pageOfThree, ClickNext, FetchSettles pageOfThree])
       = Some 0"
  by (simp add: NewsroomList_after_def NewsroomList_args_def list_defs)

text \<open>
  C3.  With \<^verbatim>\<open>pageCount = 3\<close>, two clicks on next do not lead to page 3.  The first click
  reports the selected index 1: the page becomes 2 and a fetch for page 2 is issued.
  While that fetch is in flight the component returns the skeleton only, so the control is
  unmounted; when the page has loaded it mounts again, with the selected index 0, as there
  is no \<^verbatim>\<open>forcePage\<close>.  The second click therefore reports the selected index 1 again:
  \<^verbatim>\<open>setPage(2)\<close> leaves the page at 2, and no fetch for page 3 is ever issued.  The same
  holds for \<^verbatim>\<open>NewsroomList\<close> and for \<^verbatim>\<open>ListOfPosts\<close>.
\<close>

theorem next_twice_stays_on_page_two:
  "page (NewsroomList_after
       [FetchSettles pageOfThree, ClickNext, FetchSettles pageOfThree, ClickNext]) = 2
   \<and> map argPage (fetches (NewsroomList_after
       [FetchSettles pageOfThree, ClickNext, FetchSettles pageOfThree, ClickNext])) = [1, 2]
   \<and> paginatorSelected (NewsroomList_after
       [FetchSettles pageOfThree, ClickNext, FetchSettles pageOfThree, ClickNext]) = Some 1
   \<and> page (ListOfPosts_after ''defi''
       [FetchSettles pageOfThree, ClickNext, FetchSettles pageOfThree, ClickNext]) = 2
   \<and> map argPage (fetches (ListOfPosts_after ''defi''
       [FetchSettles pageOfThree, ClickNext, FetchSettles pageOfThree, ClickNext])) = [1, 2]
   \<and> paginatorSelected (ListOfPosts_after ''defi''
       [FetchSettles pageOfThree, ClickNext, FetchSettles pageOfThree, ClickNext]) = Some 1"
  by (simp add: NewsroomList_after_def NewsroomList_args_def ListOfPosts_after_def
      ListOfPosts_args_def list_defs)

text \<open>
  A third click on next, with the control still mounted from the second, reports the index
  2 and does reach page 3.
\<close>

lemma third_next_reaches_page_three:
  "page (NewsroomList_after
       [FetchSettles pageOfThree, ClickNext, FetchSettles pageOfThree, ClickNext, ClickNext]) = 3
   \<and> map argPage (fetches (NewsroomList_after
       [FetchSettles pageOfThree, ClickNext, FetchSettles pageOfThree, ClickNext, ClickNext]))
       = [1, 2, 3]"
  by (simp add: NewsroomList_after_def NewsroomList_args_def list_defs)

end
